theory Spec2Isabelle
  imports Main "HOL-Library.Word"
begin

section \<open>JavaScript strings\<close>

text \<open>
  A JavaScript string is a sequence of UTF-16 code units; \<open>length\<close>, \<open>slice\<close>,
  \<open>startsWith\<close>, \<open>===\<close> and a regular expression without the \<open>u\<close> flag all work on
  code units. The Korean literals of the source are written out as their code units.
  \<open>js\<close> turns an ASCII literal into its code units (the code unit of an ASCII character
  is its ASCII code).
\<close>

type_synonym jschar = "16 word"
type_synonym jsstring = "jschar list"

definition js :: "string \<Rightarrow> jsstring" where
  "js s = map of_char s"

text \<open>
  The value a test \<open>if (x)\<close> or \<open>x || y\<close> lets through for \<open>x : string | null\<close>:
  \<open>null\<close> and the empty string are falsy, every other string is truthy.
\<close>

definition truthy :: "jsstring option \<Rightarrow> jsstring option" where
  "truthy x = (case x of None \<Rightarrow> None | Some s \<Rightarrow> (if s = [] then None else Some s))"

definition dash :: jschar where
  "dash = 0x2D"

definition underscore :: jschar where
  "underscore = 0x5F"

text \<open>The character class \<open>[0-9]\<close>.\<close>

definition isDigit :: "jschar \<Rightarrow> bool" where
  "isDigit c = (0x30 \<le> c \<and> c \<le> 0x39)"

text \<open>The character class \<open>\s\<close>: the white space and line terminator code points of ECMAScript.\<close>

definition isWhiteSpace :: "jschar \<Rightarrow> bool" where
  "isWhiteSpace c =
     (c \<in> set [0x0009, 0x000A, 0x000B, 0x000C, 0x000D, 0x0020, 0x00A0, 0x1680,
                0x2028, 0x2029, 0x202F, 0x205F, 0x3000, 0xFEFF]
      \<or> (0x2000 \<le> c \<and> c \<le> 0x200A))"

text \<open>\<open>s.slice(a, b)\<close> and \<open>s.slice(a)\<close> for the constant bounds \<open>0 \<le> a \<le> b\<close> the source uses.\<close>

definition slice :: "nat \<Rightarrow> nat \<Rightarrow> jsstring \<Rightarrow> jsstring" where
  "slice a b s = take (b - a) (drop a s)"

definition sliceFrom :: "nat \<Rightarrow> jsstring \<Rightarrow> jsstring" where
  "sliceFrom a s = drop a s"

definition startsWith :: "jsstring \<Rightarrow> jsstring \<Rightarrow> bool" where
  "startsWith s p = (take (length p) s = p)"

text \<open>\<open>s.replace("-", "")\<close>: a string pattern replaces its first occurrence only.\<close>

fun replaceFirstDash :: "jsstring \<Rightarrow> jsstring" where
  "replaceFirstDash [] = []"
| "replaceFirstDash (c # cs) = (if c = dash then cs else c # replaceFirstDash cs)"

text \<open>\<open>s.replace(/[^0-9]/g, "")\<close> and \<open>s.replace(/[-\s]/g, "")\<close>.\<close>

definition stripNonDigits :: "jsstring \<Rightarrow> jsstring" where
  "stripNonDigits s = filter isDigit s"

definition stripSeparators :: "jsstring \<Rightarrow> jsstring" where
  "stripSeparators s = filter (\<lambda>c. \<not> (c = dash \<or> isWhiteSpace c)) s"

text \<open>\<open>s.trim()\<close> removes leading and trailing white space and line terminators.\<close>

definition trim :: "jsstring \<Rightarrow> jsstring" where
  "trim s = rev (dropWhile isWhiteSpace (rev (dropWhile isWhiteSpace s)))"

text \<open>\<open>xs.join(", ")\<close>.\<close>

fun joinComma :: "jsstring list \<Rightarrow> jsstring" where
  "joinComma [] = []"
| "joinComma [x] = x"
| "joinComma (x # y # ys) = x @ js '', '' @ joinComma (y # ys)"

section \<open>Attribution formatter (\<open>formatClickSource\<close>)\<close>

text \<open>The own properties of the object literal \<open>sourceMap\<close> (the same table in both pages).\<close>

definition sourceMap :: "(jsstring \<times> jsstring) list" where
  "sourceMap =
    [(js ''daangn'', [0xB2F9, 0xADFC]),
     (js ''insta'', [0xC778, 0xC2A4, 0xD0C0]),
     (js ''facebook'', [0xD398, 0xC774, 0xC2A4, 0xBD81]),
     (js ''google'', [0xAD6C, 0xAE00]),
     (js ''youtube'', [0xC720, 0xD29C, 0xBE0C]),
     (js ''kakao'', [0xCE74, 0xCE74, 0xC624]),
     (js ''naver'', [0xB124, 0xC774, 0xBC84]),
     (js ''naverblog'', [0xB124, 0xC774, 0xBC84, 0xBE14, 0xB85C, 0xADF8]),
     (js ''toss'', [0xD1A0, 0xC2A4]),
     (js ''mamcafe'', [0xB9D8, 0xCE74, 0xD398])]"

text \<open>
  \<open>const shortSource = sourceMap[utmSource] || utmSource\<close>. The table is a plain object, so
  a key that is not an own property is looked up on \<open>Object.prototype\<close>. \<open>inheritedMember\<close>
  is what that lookup gives for \<open>utmSource\<close>: \<open>None\<close> when \<open>Object.prototype\<close> has no
  member of that name, and for a name it has (\<open>constructor\<close>, \<open>toString\<close>, ...) the text
  the template literal renders for the (truthy) member. That text belongs to the
  JavaScript engine, so it is a parameter.
\<close>

definition shortSource :: "jsstring option \<Rightarrow> jsstring \<Rightarrow> jsstring" where
  "shortSource inheritedMember utmSource =
     (case map_of sourceMap utmSource of
        Some d \<Rightarrow> (if d = [] then utmSource else d)
      | None \<Rightarrow> (case inheritedMember of Some r \<Rightarrow> r | None \<Rightarrow> utmSource))"

text \<open>The literal \<open>_\<close> and the literal \<open>_<U+C18C><U+C7AC>_\<close> of the template strings.\<close>

definition materialToken :: jsstring where
  "materialToken = [underscore, 0xC18C, 0xC7AC, underscore]"

text \<open>The body of \<open>formatClickSource\<close>; the two pages differ in \<open>homepageName\<close> only.\<close>

definition formatClickSourceFor ::
  "jsstring \<Rightarrow> jsstring option \<Rightarrow> jsstring \<Rightarrow>
   jsstring option \<Rightarrow> jsstring option \<Rightarrow> jsstring option \<Rightarrow> jsstring" where
  "formatClickSourceFor homepageName inheritedMember utmSource materialId blogId cafeId =
     (case truthy blogId of
        Some b \<Rightarrow> homepageName @ [underscore] @ shortSource inheritedMember utmSource @ [underscore] @ b
      | None \<Rightarrow>
     (case truthy cafeId of
        Some c \<Rightarrow> homepageName @ [underscore] @ shortSource inheritedMember utmSource @ [underscore] @ c
      | None \<Rightarrow>
     (case truthy materialId of
        Some m \<Rightarrow> homepageName @ [underscore] @ shortSource inheritedMember utmSource @ materialToken @ m
      | None \<Rightarrow> homepageName @ [underscore] @ shortSource inheritedMember utmSource)))"

text \<open>\<open>homepageName\<close> of src/app/page.tsx and of src/unnamed/part_000.\<close>

definition homepageName1 :: jsstring where
  "homepageName1 = [0xBC14, 0xB85C, 0xD3FC]"

definition homepageName2 :: jsstring where
  "homepageName2 = [0xCDE8, 0xC5C5, 0xC0C1, 0xB2F4, 0xC2E0, 0xCCAD]"

definition formatClickSource1 ::
  "jsstring option \<Rightarrow> jsstring \<Rightarrow>
   jsstring option \<Rightarrow> jsstring option \<Rightarrow> jsstring option \<Rightarrow> jsstring" where
  "formatClickSource1 = formatClickSourceFor homepageName1"

definition formatClickSource2 ::
  "jsstring option \<Rightarrow> jsstring \<Rightarrow>
   jsstring option \<Rightarrow> jsstring option \<Rightarrow> jsstring option \<Rightarrow> jsstring" where
  "formatClickSource2 = formatClickSourceFor homepageName2"

section \<open>Contact formatter and validator\<close>

text \<open>\<open>formatContact\<close>, \<open>validateContact\<close>: the same text in both pages.\<close>

definition formatContact :: "jsstring \<Rightarrow> jsstring" where
  "formatContact v =
     (let cleaned = stripNonDigits v in
      if length cleaned \<le> 3 then cleaned
      else if length cleaned \<le> 7 then slice 0 3 cleaned @ [dash] @ sliceFrom 3 cleaned
      else slice 0 3 cleaned @ [dash] @ slice 3 7 cleaned @ [dash] @ slice 7 11 cleaned)"

text \<open>
  Following the spec's words, to compare with \<open>formatContact\<close>: strip the non-digits, keep
  at most 11 digits, and put a separator after digit 3 and after digit 7 (between a group
  and the digits that follow it).
\<close>

definition spec_formatContact :: "jsstring \<Rightarrow> jsstring" where
  "spec_formatContact v =
     (let kept = take 11 (filter isDigit v);
          g1 = take 3 kept;
          g2 = take 4 (drop 3 kept);
          g3 = drop 7 kept
      in g1 @ (if g2 = [] then [] else dash # g2) @ (if g3 = [] then [] else dash # g3))"

definition prefixError :: jsstring where
  "prefixError =
     [0x0030, 0x0031, 0x0030, 0x0020, 0xB610, 0xB294, 0x0020, 0x0030, 0x0031, 0x0031,
      0xB85C, 0x0020, 0xC2DC, 0xC791, 0xD558, 0xB294, 0x0020, 0xBC88, 0xD638, 0xB97C,
      0x0020, 0xC785, 0xB825, 0xD574, 0xC8FC, 0xC138, 0xC694]"

text \<open>
  \<open>validateContact\<close> returns a boolean and calls \<open>setContactError\<close> once on every path:
  the result is the returned value paired with the new \<open>contactError\<close>.
\<close>

definition validateContact :: "jsstring \<Rightarrow> bool \<times> jsstring" where
  "validateContact contact =
     (let cleaned = stripSeparators contact in
      if length cleaned = 0 then (True, [])
      else if \<not> startsWith cleaned (js ''010'') \<and> \<not> startsWith cleaned (js ''011'')
        then (False, prefixError)
      else (True, []))"

text \<open>\<open>formatPracticeDate\<close> (second page).\<close>

definition formatPracticeDate :: "jsstring \<Rightarrow> jsstring" where
  "formatPracticeDate v =
     (let digits = slice 0 6 (stripNonDigits v) in
      if length digits \<le> 4 then digits
      else slice 0 4 digits @ [dash] @ sliceFrom 4 digits)"

section \<open>The submission request\<close>

text \<open>
  What \<open>catch (error)\<close> can receive: an instance of \<open>Error\<close> with its message, or any
  other thrown value.
\<close>

datatype thrown = ErrorInstance jsstring | NotAnError

text \<open>
  The outcomes of \<open>await fetch("/api/consultations", ...)\<close> as \<open>handleSubmit\<close> sees them:
  \<^item> \<open>FetchRejects t\<close>: the request itself fails and \<open>fetch\<close> throws \<open>t\<close>;
  \<^item> \<open>ResponseOk\<close>: a response with \<open>response.ok\<close>;
  \<^item> \<open>ResponseNotOk (Inl t)\<close>: \<open>response.ok\<close> is false and reading the body
    (\<open>await response.json()\<close>, then \<open>errorData.error\<close>) throws \<open>t\<close>;
  \<^item> \<open>ResponseNotOk (Inr e)\<close>: \<open>response.ok\<close> is false and \<open>errorData.error\<close> is the
    string \<open>e\<close>, or \<open>None\<close> when the member is missing or \<open>null\<close>.
\<close>

datatype fetchOutcome =
    FetchRejects thrown
  | ResponseOk
  | ResponseNotOk "thrown + jsstring option"

text \<open>The two fixed fallback messages of \<open>handleSubmit\<close>.\<close>

definition saveFailed :: jsstring where
  "saveFailed =
     [0xC800, 0xC7A5, 0xC5D0, 0x0020, 0xC2E4, 0xD328, 0xD588, 0xC2B5, 0xB2C8, 0xB2E4, 0x002E]"

definition saveFailedRetry :: jsstring where
  "saveFailedRetry =
     [0xC800, 0xC7A5, 0xC5D0, 0x0020, 0xC2E4, 0xD328, 0xD588, 0xC2B5, 0xB2C8, 0xB2E4, 0x002E,
      0x0020, 0xB2E4, 0xC2DC, 0x0020, 0xC2DC, 0xB3C4, 0xD574, 0xC8FC, 0xC138, 0xC694, 0x002E]"

text \<open>
  The value that reaches the \<open>catch\<close> block, if any: a rejection of \<open>fetch\<close> or of the body
  read, or \<open>new Error(errorData.error || saveFailed)\<close>.
\<close>

definition caught :: "fetchOutcome \<Rightarrow> thrown option" where
  "caught outcome =
     (case outcome of
        FetchRejects t \<Rightarrow> Some t
      | ResponseOk \<Rightarrow> None
      | ResponseNotOk r \<Rightarrow>
          (case r of
             Inl t \<Rightarrow> Some t
           | Inr e \<Rightarrow> Some (ErrorInstance (case truthy e of Some m \<Rightarrow> m | None \<Rightarrow> saveFailed))))"

text \<open>\<open>error instanceof Error ? error.message : saveFailedRetry\<close>.\<close>

definition alertText :: "thrown \<Rightarrow> jsstring" where
  "alertText t = (case t of ErrorInstance m \<Rightarrow> m | NotAnError \<Rightarrow> saveFailedRetry)"

section \<open>User and network events\<close>

text \<open>
  One event for each handler of the two pages. A page ignores the events of elements it
  does not render.
\<close>

datatype event =
    SearchParams "jsstring option" "jsstring option" "jsstring option" "jsstring option"
  | ClickNext
  | ChangeName jsstring
  | ChangeContact jsstring
  | ChooseEmploymentAfterCert jsstring
  | CheckPractice
  | CheckEmployment
  | CheckPracticeAndEmployment
  | ChangePracticeDate jsstring
  | ChooseHopeTime jsstring
  | ChooseSupportFund jsstring
  | ChangePrivacy bool
  | OpenPrivacyModal
  | ClosePrivacyModal
  | CloseCourseModal
  | ToggleCourse jsstring
  | ChangeCustomCourse jsstring
  | ConfirmCourseSelection
  | ClickSubmit
  | Settle fetchOutcome

section \<open>First page (src/app/page.tsx)\<close>

datatype formType = consultation | practice

record payload1 =
  name :: jsstring
  contact :: jsstring
  type :: formType
  click_source :: jsstring
  employment_after_cert :: jsstring
  progress :: "jsstring option"
  employment_consulting :: "bool option"
  employment_connection :: "bool option"
  student_status :: "jsstring option"
  practice_place :: "jsstring option"
  education :: jsstring
  hope_course :: jsstring
  reason :: jsstring

record formData1 =
  name :: jsstring
  contact :: jsstring
  type :: formType
  progress :: jsstring
  employment_consulting :: bool
  employment_connection :: bool
  student_status :: jsstring
  practice_place :: jsstring
  employment_after_cert :: jsstring
  education :: jsstring
  hope_course :: jsstring
  reason :: jsstring

text \<open>
  The state of \<open>StepFlowPage\<close> (\<open>clickSource\<close>) and of \<open>StepFlowContent\<close>, and what the page
  has done so far: the messages passed to \<open>alert\<close>, the values passed to \<open>console.error\<close>
  and the bodies POSTed to the endpoint.
\<close>

record state1 =
  clickSource :: jsstring
  step :: nat
  formTab :: formType
  formData :: formData1
  loading :: bool
  contactError :: jsstring
  privacyAgreed :: bool
  showPrivacyModal :: bool
  showCourseModal :: bool
  selectedCourses :: "jsstring list"
  customCourse :: jsstring
  alerts :: "jsstring list"
  errorLog :: "thrown list"
  posted :: "payload1 list"

definition COURSE_OPTIONS :: "jsstring list" where
  "COURSE_OPTIONS =
     [ [0xC0AC, 0xD68C, 0xBCF5, 0xC9C0, 0xC0AC],
      [0xC544, 0xB3D9, 0xD559, 0xC0AC],
      [0xD3C9, 0xC0DD, 0xAD50, 0xC721, 0xC0AC],
      [0xD3B8, 0xC785, 0x002F, 0xB300, 0xD559, 0xC6D0],
      [0xAC74, 0xAC15, 0xAC00, 0xC815, 0xC0AC],
      [0xCCAD, 0xC18C, 0xB144, 0xC9C0, 0xB3C4, 0xC0AC],
      [0xBCF4, 0xC721, 0xAD50, 0xC0AC],
      [0xC2EC, 0xB9AC, 0xC0C1, 0xB2F4, 0xC0AC]]"

definition initialState1 :: state1 where
  "initialState1 =
     \<lparr>clickSource = homepageName1,
      step = 1,
      formTab = consultation,
      formData =
        \<lparr>formData1.name = [], contact = [], type = consultation, progress = [],
         employment_consulting = False, employment_connection = False,
         student_status = [0xC0C1, 0xB2F4, 0xB300, 0xAE30],
         practice_place = [], employment_after_cert = [],
         education = [], hope_course = [], reason = []\<rparr>,
      loading = False,
      contactError = [],
      privacyAgreed = False,
      showPrivacyModal = False,
      showCourseModal = False,
      selectedCourses = [],
      customCourse = [],
      alerts = [], errorLog = [], posted = []\<rparr>"

definition toggleCourse :: "jsstring \<Rightarrow> state1 \<Rightarrow> state1" where
  "toggleCourse course st =
     st\<lparr>selectedCourses :=
          (if course \<in> set (selectedCourses st)
           then filter (\<lambda>c. c \<noteq> course) (selectedCourses st)
           else selectedCourses st @ [course])\<rparr>"

definition confirmCourseSelection :: "state1 \<Rightarrow> state1" where
  "confirmCourseSelection st =
     (let all = (if trim (customCourse st) \<noteq> []
                 then selectedCourses st @ [trim (customCourse st)]
                 else selectedCourses st)
      in st\<lparr>formData := (formData st)\<lparr>hope_course := joinComma all\<rparr>,
            showCourseModal := False\<rparr>)"

definition submitData1 :: "state1 \<Rightarrow> payload1" where
  "submitData1 st =
     (let fd = formData st in
      \<lparr>payload1.name = name fd,
       contact = contact fd,
       type = type fd,
       click_source = clickSource st,
       employment_after_cert = employment_after_cert fd,
       progress = (if type fd = consultation then Some (progress fd) else None),
       employment_consulting =
         (if type fd = consultation then Some (employment_consulting fd) else None),
       employment_connection =
         (if type fd = consultation then Some (employment_connection fd) else None),
       student_status = (if type fd = consultation then Some (student_status fd) else None),
       practice_place = (if type fd = practice then Some (practice_place fd) else None),
       education = education fd,
       hope_course = hope_course fd,
       reason = reason fd\<rparr>)"

text \<open>
  \<open>handleSubmit\<close> is asynchronous. Up to the \<open>await\<close> it sets the busy flag and sends the
  request; when the request settles it runs the rest: \<open>setStep(3)\<close>, or \<open>console.error\<close>
  and \<open>alert\<close> in the \<open>catch\<close> block, then \<open>setLoading(false)\<close> in \<open>finally\<close>.
\<close>

definition handleSubmitSend1 :: "state1 \<Rightarrow> state1" where
  "handleSubmitSend1 st = st\<lparr>loading := True, posted := posted st @ [submitData1 st]\<rparr>"

definition handleSubmitSettle1 :: "fetchOutcome \<Rightarrow> state1 \<Rightarrow> state1" where
  "handleSubmitSettle1 outcome st =
     (case caught outcome of
        None \<Rightarrow> st\<lparr>step := 3, loading := False\<rparr>
      | Some error \<Rightarrow>
          st\<lparr>errorLog := errorLog st @ [error],
             alerts := alerts st @ [alertText error],
             loading := False\<rparr>)"

definition handleSubmit1 :: "fetchOutcome \<Rightarrow> state1 \<Rightarrow> state1" where
  "handleSubmit1 outcome st = handleSubmitSettle1 outcome (handleSubmitSend1 st)"

definition isFormValid1 :: "state1 \<Rightarrow> bool" where
  "isFormValid1 st =
     (length (name (formData st)) > 0 \<and>
      length (stripSeparators (contact (formData st))) \<ge> 10 \<and>
      contactError st = [] \<and>
      privacyAgreed st)"

text \<open>
  The condition under which step 2 renders the employment radio buttons and the privacy
  checkbox.
\<close>

definition contactEntered1 :: "state1 \<Rightarrow> bool" where
  "contactEntered1 st =
     (length (stripSeparators (contact (formData st))) \<ge> 10 \<and> contactError st = [])"

text \<open>
  One event on the first page. An element that is not rendered, or a disabled button,
  delivers no event: the state stays as it is. \<open>inherited\<close> gives, for each name, what
  \<open>Object.prototype\<close> holds under it (see \<open>shortSource\<close>).
\<close>

fun handleEvent1 :: "(jsstring \<Rightarrow> jsstring option) \<Rightarrow> state1 \<Rightarrow> event \<Rightarrow> state1" where
  "handleEvent1 inherited st (SearchParams utmSource materialId blogId cafeId) =
     (case truthy utmSource of
        Some u \<Rightarrow> st\<lparr>clickSource := formatClickSource1 (inherited u) u materialId blogId cafeId\<rparr>
      | None \<Rightarrow> st)"
| "handleEvent1 inherited st ClickNext =
     (if step st = 1 then st\<lparr>step := 2\<rparr> else st)"
| "handleEvent1 inherited st (ChangeName v) =
     (if step st = 2 then st\<lparr>formData := (formData st)\<lparr>name := v\<rparr>\<rparr> else st)"
| "handleEvent1 inherited st (ChangeContact v) =
     (if step st = 2 \<and> length (name (formData st)) > 0
      then (let formatted = formatContact v
            in st\<lparr>formData := (formData st)\<lparr>contact := formatted\<rparr>,
                  contactError := snd (validateContact formatted)\<rparr>)
      else st)"
| "handleEvent1 inherited st (ChooseEmploymentAfterCert v) =
     (if step st = 2 \<and> contactEntered1 st \<and> (v = js ''O'' \<or> v = js ''X'')
      then st\<lparr>formData := (formData st)\<lparr>employment_after_cert := v\<rparr>\<rparr>
      else st)"
| "handleEvent1 inherited st (ChangePrivacy checked) =
     (if step st = 2 \<and> contactEntered1 st then st\<lparr>privacyAgreed := checked\<rparr> else st)"
| "handleEvent1 inherited st OpenPrivacyModal =
     (if step st = 2 \<and> contactEntered1 st then st\<lparr>showPrivacyModal := True\<rparr> else st)"
| "handleEvent1 inherited st ClosePrivacyModal =
     (if showPrivacyModal st then st\<lparr>showPrivacyModal := False\<rparr> else st)"
| "handleEvent1 inherited st CloseCourseModal =
     (if showCourseModal st then st\<lparr>showCourseModal := False\<rparr> else st)"
| "handleEvent1 inherited st (ToggleCourse course) =
     (if showCourseModal st \<and> course \<in> set COURSE_OPTIONS then toggleCourse course st else st)"
| "handleEvent1 inherited st (ChangeCustomCourse v) =
     (if showCourseModal st then st\<lparr>customCourse := v\<rparr> else st)"
| "handleEvent1 inherited st ConfirmCourseSelection =
     (if showCourseModal st \<and> \<not> (selectedCourses st = [] \<and> trim (customCourse st) = [])
      then confirmCourseSelection st else st)"
| "handleEvent1 inherited st ClickSubmit =
     (if step st = 2 \<and> isFormValid1 st \<and> \<not> loading st then handleSubmitSend1 st else st)"
| "handleEvent1 inherited st (Settle outcome) =
     (if loading st then handleSubmitSettle1 outcome st else st)"
| "handleEvent1 inherited st _ = st"

definition run1 :: "(jsstring \<Rightarrow> jsstring option) \<Rightarrow> event list \<Rightarrow> state1" where
  "run1 inherited evs = foldl (handleEvent1 inherited) initialState1 evs"

section \<open>Second page (src/unnamed/part_000)\<close>

record payload2 =
  name :: jsstring
  contact :: jsstring
  service_practice :: bool
  service_employment :: bool
  practice_planned_date :: "jsstring option"
  employment_hope_time :: jsstring
  employment_support_fund :: bool
  privacy_agreed :: bool
  click_source :: jsstring
  type :: jsstring

record formData2 =
  name :: jsstring
  contact :: jsstring
  service_practice :: bool
  service_employment :: bool
  practice_planned_date :: jsstring
  employment_hope_time :: jsstring
  employment_support_fund :: jsstring

record state2 =
  clickSource :: jsstring
  step :: nat
  formData :: formData2
  loading :: bool
  contactError :: jsstring
  privacyAgreed :: bool
  showPrivacyModal :: bool
  alerts :: "jsstring list"
  errorLog :: "thrown list"
  posted :: "payload2 list"

text \<open>The two values of the support-fund radio buttons and the three \<open>type\<close> labels.\<close>

definition fundHoped :: jsstring where
  "fundHoped = [0xD76C, 0xB9DD, 0xD568]"

definition fundNotHoped :: jsstring where
  "fundNotHoped = [0xD76C, 0xB9DD, 0xD558, 0xC9C0, 0x0020, 0xC54A, 0xC74C]"

definition typePracticeAndEmployment :: jsstring where
  "typePracticeAndEmployment = [0xC2E4, 0xC2B5, 0x002B, 0xCDE8, 0xC5C5]"

definition typePractice :: jsstring where
  "typePractice = [0xC2E4, 0xC2B5]"

definition typeEmployment :: jsstring where
  "typeEmployment = [0xCDE8, 0xC5C5]"

text \<open>The options of the hoped employment time radio buttons.\<close>

definition hopeTimeOptions :: "jsstring list" where
  "hopeTimeOptions =
     [ [0xBC14, 0xB85C, 0x0020, 0xCDE8, 0xC5C5],
      [0x0033, 0xAC1C, 0xC6D4, 0x0020, 0xC900, 0xBE44],
      [0x0036, 0xAC1C, 0xC6D4, 0x0020, 0xC900, 0xBE44]]"

definition initialState2 :: state2 where
  "initialState2 =
     \<lparr>clickSource = homepageName2,
      step = 2,
      formData =
        \<lparr>formData2.name = [], contact = [], service_practice = False,
         service_employment = False, practice_planned_date = [],
         employment_hope_time = [], employment_support_fund = []\<rparr>,
      loading = False,
      contactError = [],
      privacyAgreed = False,
      showPrivacyModal = False,
      alerts = [], errorLog = [], posted = []\<rparr>"

definition submitData2 :: "state2 \<Rightarrow> payload2" where
  "submitData2 st =
     (let fd = formData st in
      \<lparr>payload2.name = name fd,
       contact = contact fd,
       service_practice = service_practice fd,
       service_employment = service_employment fd,
       practice_planned_date =
         (if service_practice fd then Some (replaceFirstDash (practice_planned_date fd))
          else None),
       employment_hope_time = employment_hope_time fd,
       employment_support_fund = (employment_support_fund fd = fundHoped),
       privacy_agreed = privacyAgreed st,
       click_source = clickSource st,
       type =
         (if service_practice fd \<and> service_employment fd then typePracticeAndEmployment
          else if service_practice fd then typePractice
          else typeEmployment)\<rparr>)"

definition handleSubmitSend2 :: "state2 \<Rightarrow> state2" where
  "handleSubmitSend2 st = st\<lparr>loading := True, posted := posted st @ [submitData2 st]\<rparr>"

definition handleSubmitSettle2 :: "fetchOutcome \<Rightarrow> state2 \<Rightarrow> state2" where
  "handleSubmitSettle2 outcome st =
     (case caught outcome of
        None \<Rightarrow> st\<lparr>step := 3, loading := False\<rparr>
      | Some error \<Rightarrow>
          st\<lparr>errorLog := errorLog st @ [error],
             alerts := alerts st @ [alertText error],
             loading := False\<rparr>)"

definition handleSubmit2 :: "fetchOutcome \<Rightarrow> state2 \<Rightarrow> state2" where
  "handleSubmit2 outcome st = handleSubmitSettle2 outcome (handleSubmitSend2 st)"

definition isFormValid2 :: "state2 \<Rightarrow> bool" where
  "isFormValid2 st =
     (length (name (formData st)) > 0 \<and>
      length (stripSeparators (contact (formData st))) \<ge> 10 \<and>
      contactError st = [] \<and>
      (service_practice (formData st) \<or> service_employment (formData st)) \<and>
      (\<not> service_practice (formData st) \<or> length (practice_planned_date (formData st)) = 7) \<and>
      length (employment_hope_time (formData st)) > 0 \<and>
      employment_support_fund (formData st) \<noteq> [] \<and>
      privacyAgreed st)"

fun handleEvent2 :: "(jsstring \<Rightarrow> jsstring option) \<Rightarrow> state2 \<Rightarrow> event \<Rightarrow> state2" where
  "handleEvent2 inherited st (SearchParams utmSource materialId blogId cafeId) =
     (case truthy utmSource of
        Some u \<Rightarrow> st\<lparr>clickSource := formatClickSource2 (inherited u) u materialId blogId cafeId\<rparr>
      | None \<Rightarrow> st)"
| "handleEvent2 inherited st (ChangeName v) =
     (if step st = 2 then st\<lparr>formData := (formData st)\<lparr>name := v\<rparr>\<rparr> else st)"
| "handleEvent2 inherited st (ChangeContact v) =
     (if step st = 2
      then (let formatted = formatContact v
            in st\<lparr>formData := (formData st)\<lparr>contact := formatted\<rparr>,
                  contactError := snd (validateContact formatted)\<rparr>)
      else st)"
| "handleEvent2 inherited st CheckPractice =
     (if step st = 2
      then st\<lparr>formData := (formData st)\<lparr>service_practice := True, service_employment := False\<rparr>\<rparr>
      else st)"
| "handleEvent2 inherited st CheckEmployment =
     (if step st = 2
      then st\<lparr>formData := (formData st)\<lparr>service_practice := False, service_employment := True,
                                        practice_planned_date := []\<rparr>\<rparr>
      else st)"
| "handleEvent2 inherited st CheckPracticeAndEmployment =
     (if step st = 2
      then st\<lparr>formData := (formData st)\<lparr>service_practice := True, service_employment := True\<rparr>\<rparr>
      else st)"
| "handleEvent2 inherited st (ChangePracticeDate v) =
     (if step st = 2 \<and> service_practice (formData st)
      then st\<lparr>formData := (formData st)\<lparr>practice_planned_date := formatPracticeDate v\<rparr>\<rparr>
      else st)"
| "handleEvent2 inherited st (ChooseHopeTime v) =
     (if step st = 2 \<and> v \<in> set hopeTimeOptions
      then st\<lparr>formData := (formData st)\<lparr>employment_hope_time := v\<rparr>\<rparr>
      else st)"
| "handleEvent2 inherited st (ChooseSupportFund v) =
     (if step st = 2 \<and> (v = fundHoped \<or> v = fundNotHoped)
      then st\<lparr>formData := (formData st)\<lparr>employment_support_fund := v\<rparr>\<rparr>
      else st)"
| "handleEvent2 inherited st (ChangePrivacy checked) =
     (if step st = 2 then st\<lparr>privacyAgreed := checked\<rparr> else st)"
| "handleEvent2 inherited st OpenPrivacyModal =
     (if step st = 2 then st\<lparr>showPrivacyModal := True\<rparr> else st)"
| "handleEvent2 inherited st ClosePrivacyModal =
     (if showPrivacyModal st then st\<lparr>showPrivacyModal := False\<rparr> else st)"
| "handleEvent2 inherited st ClickSubmit =
     (if step st = 2 \<and> isFormValid2 st \<and> \<not> loading st then handleSubmitSend2 st else st)"
| "handleEvent2 inherited st (Settle outcome) =
     (if loading st then handleSubmitSettle2 outcome st else st)"
| "handleEvent2 inherited st _ = st"

definition run2 :: "(jsstring \<Rightarrow> jsstring option) \<Rightarrow> event list \<Rightarrow> state2" where
  "run2 inherited evs = foldl (handleEvent2 inherited) initialState2 evs"

section \<open>Properties of the attribution formatter\<close>

lemma distinct_sourceMap: "distinct (map fst sourceMap)"
  by (simp add: sourceMap_def js_def)

lemma sourceMap_lookup: "(k, d) \<in> set sourceMap \<Longrightarrow> map_of sourceMap k = Some d"
  using distinct_sourceMap by simp

lemma sourceMap_nonempty: "(k, d) \<in> set sourceMap \<Longrightarrow> d \<noteq> []"
  by (auto simp: sourceMap_def)

lemma shortSource_supported: "(k, d) \<in> set sourceMap \<Longrightarrow> shortSource inh k = d"
  by (simp add: shortSource_def sourceMap_lookup sourceMap_nonempty)

lemma truthy_simps:
  "truthy None = None"
  "truthy (Some []) = None"
  "s \<noteq> [] \<Longrightarrow> truthy (Some s) = Some s"
  by (simp_all add: truthy_def)

lemma fcs_blog:
  "b \<noteq> [] \<Longrightarrow>
   formatClickSourceFor hn inh utm materialId (Some b) cafeId =
     hn @ [underscore] @ shortSource inh utm @ [underscore] @ b"
  by (simp add: formatClickSourceFor_def truthy_simps)

lemma fcs_cafe:
  "blogId = None \<or> blogId = Some [] \<Longrightarrow> c \<noteq> [] \<Longrightarrow>
   formatClickSourceFor hn inh utm materialId blogId (Some c) =
     hn @ [underscore] @ shortSource inh utm @ [underscore] @ c"
  by (auto simp: formatClickSourceFor_def truthy_simps)

lemma fcs_material:
  "blogId = None \<or> blogId = Some [] \<Longrightarrow> cafeId = None \<or> cafeId = Some [] \<Longrightarrow> m \<noteq> [] \<Longrightarrow>
   formatClickSourceFor hn inh utm (Some m) blogId cafeId =
     hn @ [underscore] @ shortSource inh utm @ materialToken @ m"
  by (auto simp: formatClickSourceFor_def truthy_simps)

lemma fcs_none:
  "blogId = None \<or> blogId = Some [] \<Longrightarrow> cafeId = None \<or> cafeId = Some [] \<Longrightarrow>
   materialId = None \<or> materialId = Some [] \<Longrightarrow>
   formatClickSourceFor hn inh utm materialId blogId cafeId =
     hn @ [underscore] @ shortSource inh utm"
  by (auto simp: formatClickSourceFor_def truthy_simps)

lemma material_label_differs: "base @ materialToken @ x \<noteq> base @ [underscore] @ x"
proof
  assume "base @ materialToken @ x = base @ [underscore] @ x"
  then have "length (base @ materialToken @ x) = length (base @ [underscore] @ x)"
    by simp
  then show False
    by (simp add: materialToken_def)
qed

text \<open>
  C1. For each of the ten source codes of the lookup table, on both pages:
  with no identifier at all (\<open>null\<close> three times) the label is the campaign constant, an
  underscore and the display name of the table; with identifiers given, exactly one suffix
  follows that label, the blog identifier's when there is one, else the cafe identifier's
  when there is one, else the material identifier's. An identifier counts as given when it
  passes the source's test \<open>if (id)\<close>, that is, when it is a non-empty string.
\<close>

theorem formatClickSource_supported_codes:
  assumes "(code, displayName) \<in> set sourceMap"
    and "f = formatClickSource1 \<and> hn = homepageName1 \<or> f = formatClickSource2 \<and> hn = homepageName2"
  shows "f inheritedMember code None None None = hn @ [underscore] @ displayName
    \<and> (b \<noteq> [] \<longrightarrow>
         f inheritedMember code materialId (Some b) cafeId
           = hn @ [underscore] @ displayName @ [underscore] @ b)
    \<and> ((blogId = None \<or> blogId = Some []) \<and> c \<noteq> [] \<longrightarrow>
         f inheritedMember code materialId blogId (Some c)
           = hn @ [underscore] @ displayName @ [underscore] @ c)
    \<and> ((blogId = None \<or> blogId = Some []) \<and> (cafeId = None \<or> cafeId = Some []) \<and> m \<noteq> [] \<longrightarrow>
         f inheritedMember code (Some m) blogId cafeId
           = hn @ [underscore] @ displayName @ materialToken @ m)"
proof -
  have f: "f = formatClickSourceFor hn"
    using assms(2) by (auto simp: formatClickSource1_def formatClickSource2_def)
  have s: "shortSource inheritedMember code = displayName"
    using assms(1) by (rule shortSource_supported)
  show ?thesis
    unfolding f using s
    by (simp add: fcs_blog fcs_cafe fcs_material fcs_none)
qed

theorem formatClickSource_supported_codes_witness:
  "formatClickSource1 None (js ''kakao'') None None None
     = homepageName1 @ [underscore] @ [0xCE74, 0xCE74, 0xC624]
   \<and> formatClickSource1 None (js ''kakao'') (Some (js ''42'')) (Some (js ''b7'')) (Some (js ''c9''))
     = homepageName1 @ [underscore] @ [0xCE74, 0xCE74, 0xC624] @ [underscore] @ js ''b7''
   \<and> formatClickSource1 None (js ''kakao'') (Some (js ''42'')) None (Some (js ''c9''))
     = homepageName1 @ [underscore] @ [0xCE74, 0xCE74, 0xC624] @ [underscore] @ js ''c9''
   \<and> formatClickSource1 None (js ''kakao'') (Some (js ''42'')) None None
     = homepageName1 @ [underscore] @ [0xCE74, 0xCE74, 0xC624] @ materialToken @ js ''42''"
proof -
  have k: "(js ''kakao'', [0xCE74, 0xCE74, 0xC624]) \<in> set sourceMap"
    by (simp add: sourceMap_def)
  have v: "formatClickSource1 = formatClickSource1 \<and> homepageName1 = homepageName1
           \<or> formatClickSource1 = formatClickSource2 \<and> homepageName1 = homepageName2"
    by simp
  have n: "js ''b7'' \<noteq> []" "js ''c9'' \<noteq> []" "js ''42'' \<noteq> []"
    by (simp_all add: js_def)
  show ?thesis
    using n
      formatClickSource_supported_codes [OF k v, where inheritedMember = None
        and b = "js ''b7''" and materialId = "Some (js ''42'')" and cafeId = "Some (js ''c9'')"
        and blogId = None and c = "js ''c9''" and m = "js ''42''"]
      formatClickSource_supported_codes [OF k v, where inheritedMember = None
        and b = "js ''b7''" and materialId = "Some (js ''42'')" and cafeId = None
        and blogId = None and c = "js ''c9''" and m = "js ''42''"]
    by simp
qed

text \<open>
  C2, as stated, fails: the blog identifier and the cafe identifier are appended with the
  same separator, a single underscore, so a blog identifier and a cafe identifier of the
  same string give the same label.
\<close>

theorem blog_and_cafe_label_counterexample:
  "formatClickSource1 None (js ''kakao'') None (Some (js ''42'')) None
   = formatClickSource1 None (js ''kakao'') None None (Some (js ''42''))"
  by (simp add: formatClickSource1_def formatClickSourceFor_def truthy_def js_def)

text \<open>
  C2, amended. For every source code and every choice of identifiers, on both pages, the
  label is the campaign constant, an underscore and the display name, followed by the
  first non-empty identifier among blog, cafe, material in that order. Blog and cafe
  identifiers are both appended after a single underscore, so their labels for the same
  string coincide; the material identifier is appended after its own token, so its label
  differs from the blog or cafe label of the same string. With no identifier nothing is
  appended.
\<close>

theorem formatClickSource_first_identifier:
  assumes "f = formatClickSource1 \<and> hn = homepageName1 \<or> f = formatClickSource2 \<and> hn = homepageName2"
  shows "(b \<noteq> [] \<longrightarrow>
           f inheritedMember utm materialId (Some b) cafeId
             = hn @ [underscore] @ shortSource inheritedMember utm @ [underscore] @ b)
    \<and> ((blogId = None \<or> blogId = Some []) \<and> c \<noteq> [] \<longrightarrow>
           f inheritedMember utm materialId blogId (Some c)
             = hn @ [underscore] @ shortSource inheritedMember utm @ [underscore] @ c)
    \<and> ((blogId = None \<or> blogId = Some []) \<and> (cafeId = None \<or> cafeId = Some []) \<and> m \<noteq> [] \<longrightarrow>
           f inheritedMember utm (Some m) blogId cafeId
             = hn @ [underscore] @ shortSource inheritedMember utm @ materialToken @ m)
    \<and> ((blogId = None \<or> blogId = Some []) \<and> (cafeId = None \<or> cafeId = Some [])
         \<and> (materialId = None \<or> materialId = Some []) \<longrightarrow>
           f inheritedMember utm materialId blogId cafeId = hn @ [underscore] @ shortSource inheritedMember utm)
    \<and> (x \<noteq> [] \<longrightarrow>
           f inheritedMember utm None (Some x) None = f inheritedMember utm None None (Some x)
         \<and> f inheritedMember utm (Some x) None None \<noteq> f inheritedMember utm None (Some x) None
         \<and> f inheritedMember utm (Some x) None None \<noteq> f inheritedMember utm None None (Some x))"
proof -
  have f: "f = formatClickSourceFor hn"
    using assms by (auto simp: formatClickSource1_def formatClickSource2_def)
  have d: "(hn @ [underscore] @ shortSource inheritedMember utm) @ materialToken @ x
           \<noteq> (hn @ [underscore] @ shortSource inheritedMember utm) @ [underscore] @ x"
    by (rule material_label_differs)
  show ?thesis
    unfolding f using d
    by (simp add: fcs_blog fcs_cafe fcs_material fcs_none)
qed

theorem formatClickSource_first_identifier_witness:
  "formatClickSource2 None (js ''blogspot'') (Some (js ''42'')) (Some []) (Some (js ''c9''))
     = homepageName2 @ [underscore] @ js ''blogspot'' @ [underscore] @ js ''c9''
   \<and> formatClickSource2 None (js ''blogspot'') (Some (js ''42'')) None None
     \<noteq> formatClickSource2 None (js ''blogspot'') None (Some (js ''42'')) None"
proof -
  have v: "formatClickSource2 = formatClickSource1 \<and> homepageName2 = homepageName1
           \<or> formatClickSource2 = formatClickSource2 \<and> homepageName2 = homepageName2"
    by simp
  have n: "js ''c9'' \<noteq> []" "js ''42'' \<noteq> []"
    by (simp_all add: js_def)
  have s: "shortSource None (js ''blogspot'') = js ''blogspot''"
    by (simp add: shortSource_def sourceMap_def js_def)
  show ?thesis
    using n s
      formatClickSource_first_identifier [OF v, where inheritedMember = None
        and utm = "js ''blogspot''" and b = "js ''b7''" and materialId = "Some (js ''42'')"
        and cafeId = "Some (js ''c9'')" and blogId = "Some []" and c = "js ''c9''"
        and m = "js ''42''" and x = "js ''42''"]
    by simp
qed

section \<open>Properties of the contact formatter and validator\<close>

lemma filter_take_all: "\<forall>x\<in>set c. P x \<Longrightarrow> filter P (take n c) = take n c"
  by (rule filter_True) (auto dest!: in_set_takeD)

lemma filter_drop_all: "\<forall>x\<in>set c. P x \<Longrightarrow> filter P (drop n c) = drop n c"
  by (rule filter_True) (auto dest!: in_set_dropD)

lemma filter_sub_all:
  "\<forall>x\<in>set c. P x \<Longrightarrow> filter P (take n (drop m c)) = take n (drop m c)"
  by (rule filter_True) (auto dest!: in_set_takeD in_set_dropD)

lemma not_digit_dash: "\<not> isDigit dash"
  by (simp add: isDigit_def dash_def)

lemma formatContact_groups:
  "formatContact v =
     (let c = filter isDigit v in
      if length c \<le> 3 then c
      else if length c \<le> 7 then take 3 c @ dash # drop 3 c
      else take 3 c @ dash # take 4 (drop 3 c) @ dash # take 4 (drop 7 c))"
  by (simp add: formatContact_def stripNonDigits_def slice_def sliceFrom_def Let_def)

lemma take11_split: "take 3 c @ take 4 (drop 3 c) @ take 4 (drop 7 c) = take 11 c"
proof -
  have "take 11 c = take 3 c @ take 8 (drop 3 c)"
    using take_add[of 3 8 c] by simp
  also have "take 8 (drop 3 c) = take 4 (drop 3 c) @ take 4 (drop 7 c)"
    using take_add[of 4 4 "drop 3 c"] by simp
  finally show ?thesis by simp
qed

lemma digits_formatContact: "filter isDigit (formatContact v) = take 11 (filter isDigit v)"
proof -
  define c where "c = filter isDigit v"
  have all: "\<forall>x\<in>set c. isDigit x" by (simp add: c_def)
  consider "length c \<le> 3" | "3 < length c" "length c \<le> 7" | "7 < length c" by linarith
  then have "filter isDigit (formatContact v) = take 11 c"
  proof cases
    case 1
    have "filter isDigit c = c" using all by simp
    with 1 show ?thesis
      by (simp add: formatContact_groups c_def[symmetric])
  next
    case 2
    have "filter isDigit (take 3 c @ dash # drop 3 c) = take 3 c @ drop 3 c"
      using all by (simp add: filter_take_all filter_drop_all not_digit_dash)
    with 2 show ?thesis
      by (simp add: formatContact_groups c_def[symmetric])
  next
    case 3
    have "filter isDigit (take 3 c @ dash # take 4 (drop 3 c) @ dash # take 4 (drop 7 c))
          = take 3 c @ take 4 (drop 3 c) @ take 4 (drop 7 c)"
      using all by (simp add: filter_take_all filter_sub_all not_digit_dash)
    with 3 show ?thesis
      by (simp add: formatContact_groups c_def[symmetric] take11_split)
  qed
  then show ?thesis by (simp add: c_def)
qed

lemma formatContact_of_digits: "formatContact (filter isDigit v) = formatContact v"
  by (simp add: formatContact_groups)

lemma formatContact_take11:
  "formatContact (take 11 (filter isDigit v)) = formatContact v"
proof -
  define c where "c = filter isDigit v"
  have all: "\<forall>x\<in>set c. isDigit x" by (simp add: c_def)
  have f: "filter isDigit (take 11 c) = take 11 c" using all by (rule filter_take_all)
  consider "length c \<le> 7" | "7 < length c" by linarith
  then have "formatContact (take 11 c) = formatContact v"
  proof cases
    case 1
    then have "take 11 c = c" by simp
    then show ?thesis by (simp add: formatContact_of_digits c_def)
  next
    case 2
    then have l: "\<not> length (take 11 c) \<le> 3" "\<not> length (take 11 c) \<le> 7" by simp_all
    have "formatContact (take 11 c) =
            take 3 (take 11 c) @ dash # take 4 (drop 3 (take 11 c)) @ dash # take 4 (drop 7 (take 11 c))"
      unfolding formatContact_groups f Let_def using l by simp
    also have "\<dots> = take 3 c @ dash # take 4 (drop 3 c) @ dash # take 4 (drop 7 c)"
      by (simp add: drop_take)
    also have "\<dots> = formatContact v"
      using 2 by (simp add: formatContact_groups c_def[symmetric])
    finally show ?thesis .
  qed
  then show ?thesis by (simp add: c_def)
qed

text \<open>
  C4. The contact formatter is idempotent: formatting a formatted value gives the same
  value, for every input string.
\<close>

theorem formatContact_idempotent: "formatContact (formatContact s) = formatContact s"
proof -
  have "formatContact (formatContact s) = formatContact (filter isDigit (formatContact s))"
    by (simp add: formatContact_of_digits)
  also have "\<dots> = formatContact (take 11 (filter isDigit s))"
    by (simp add: digits_formatContact)
  also have "\<dots> = formatContact s"
    by (rule formatContact_take11)
  finally show ?thesis .
qed

theorem formatContact_idempotent_witness:
  "formatContact (formatContact (js ''+82 (010) 1234-5678 ext. 99'')) = js ''820-1012-3456''
   \<and> formatContact (js ''+82 (010) 1234-5678 ext. 99'') = js ''820-1012-3456''"
  using formatContact_idempotent [of "js ''+82 (010) 1234-5678 ext. 99''"]
  by (simp add: formatContact_groups js_def isDigit_def dash_def)

lemma formatContact_spec: "formatContact v = spec_formatContact v"
proof -
  define c where "c = filter isDigit v"
  consider "length c \<le> 3" | "3 < length c" "length c \<le> 7" | "7 < length c" by linarith
  then have "formatContact v =
     take 3 (take 11 c) @ (if take 4 (drop 3 (take 11 c)) = [] then [] else dash # take 4 (drop 3 (take 11 c)))
       @ (if drop 7 (take 11 c) = [] then [] else dash # drop 7 (take 11 c))"
  proof cases
    case 1
    then show ?thesis by (simp add: formatContact_groups c_def[symmetric])
  next
    case 2
    then have "take 11 c = c" "take 4 (drop 3 c) = drop 3 c" by simp_all
    with 2 show ?thesis by (simp add: formatContact_groups c_def[symmetric])
  next
    case 3
    then show ?thesis by (simp add: formatContact_groups c_def[symmetric] drop_take)
  qed
  then show ?thesis unfolding spec_formatContact_def Let_def c_def .
qed

lemma formatContact_chars: "x \<in> set (formatContact v) \<Longrightarrow> isDigit x \<or> x = dash"
  by (auto simp: formatContact_groups Let_def split: if_splits dest!: in_set_takeD in_set_dropD)

lemma dash_positions:
  assumes i: "i < length (formatContact v)"
  shows "(formatContact v ! i = dash) = (i = 3 \<or> i = 8)"
proof -
  define c where "c = filter isDigit v"
  have nd: "\<And>j. j < length c \<Longrightarrow> c ! j \<noteq> dash"
  proof -
    fix j assume "j < length c"
    then have "c ! j \<in> set c" by simp
    then have "isDigit (c ! j)" by (simp add: c_def)
    then show "c ! j \<noteq> dash" using not_digit_dash by auto
  qed
  consider "length c \<le> 3" | "3 < length c" "length c \<le> 7" | "7 < length c" by linarith
  then show ?thesis
  proof cases
    case 1
    with i nd show ?thesis by (simp add: formatContact_groups c_def[symmetric])
  next
    case 2
    with i nd show ?thesis
      by (auto simp: formatContact_groups c_def[symmetric] nth_append nth_Cons' min_def split: if_splits)
  next
    case 3
    with i nd show ?thesis
      by (auto simp: formatContact_groups c_def[symmetric] nth_append nth_Cons' min_def split: if_splits)
  qed
qed

text \<open>
  C5. For every input string the formatted contact is what the spec describes (the
  non-digits stripped, at most 11 digits kept, a separator after digit 3 and after digit 7):
  its digits are the first 11 digits of the input in order, every other character of it is
  a separator, and the separators stand exactly at positions 3 and 8, that is, after the
  third and after the seventh digit. The digits 01012345678 are displayed as 010-1234-5678.
\<close>

theorem formatContact_shape:
  "formatContact v = spec_formatContact v
   \<and> filter isDigit (formatContact v) = take 11 (filter isDigit v)
   \<and> (\<forall>x \<in> set (formatContact v). isDigit x \<or> x = dash)
   \<and> (\<forall>i < length (formatContact v). (formatContact v ! i = dash) = (i = 3 \<or> i = 8))
   \<and> formatContact (js ''01012345678'') = js ''010-1234-5678''"
proof -
  have "formatContact (js ''01012345678'') = js ''010-1234-5678''"
    by (simp add: formatContact_groups js_def isDigit_def dash_def)
  then show ?thesis
    using formatContact_spec [of v] digits_formatContact [of v] formatContact_chars [of _ v]
      dash_positions [of _ v]
    by blast
qed

theorem formatContact_shape_witness:
  "formatContact (js ''a0b1c0d1'') = js ''010-1''
   \<and> spec_formatContact (js ''a0b1c0d1'') = js ''010-1''
   \<and> filter isDigit (js ''010-1'') = take 11 (filter isDigit (js ''a0b1c0d1''))
   \<and> js ''010-1'' ! 3 = dash
   \<and> (isDigit (js ''010-1'' ! 0) \<or> js ''010-1'' ! 0 = dash)"
proof -
  have b: "formatContact (js ''a0b1c0d1'') = js ''010-1''"
    by (simp add: formatContact_groups js_def isDigit_def dash_def)
  note t = formatContact_shape [of "js ''a0b1c0d1''", unfolded b]
  have l: "3 < length (js ''010-1'')" "js ''010-1'' ! 0 \<in> set (js ''010-1'')"
    by (simp_all add: js_def)
  from t have "js ''010-1'' = spec_formatContact (js ''a0b1c0d1'')"
    and "filter isDigit (js ''010-1'') = take 11 (filter isDigit (js ''a0b1c0d1''))"
    and p: "\<forall>i<length (js ''010-1''). (js ''010-1'' ! i = dash) = (i = 3 \<or> i = 8)"
    and c: "\<forall>x\<in>set (js ''010-1''). isDigit x \<or> x = dash"
    by blast+
  moreover from p l(1) have "js ''010-1'' ! 3 = dash"
    by blast
  moreover from c l(2) have "isDigit (js ''010-1'' ! 0) \<or> js ''010-1'' ! 0 = dash"
    by blast
  ultimately show ?thesis
    using b by simp
qed

text \<open>
  C6. For every contact string, \<open>validateContact\<close> returns true and clears the error message
  exactly when the string without its separators (hyphens and white space) is empty or
  begins with 010 or 011; otherwise it returns false and sets the fixed prefix message,
  which is not empty. The input 02112345678 is invalid, as typed and as the input handler
  passes it on (formatted).
\<close>

theorem validateContact_prefix:
  "validateContact s =
     (if stripSeparators s = [] \<or> startsWith (stripSeparators s) (js ''010'')
          \<or> startsWith (stripSeparators s) (js ''011'')
      then (True, []) else (False, prefixError))
   \<and> prefixError \<noteq> []
   \<and> validateContact (js ''02112345678'') = (False, prefixError)
   \<and> validateContact (formatContact (js ''02112345678'')) = (False, prefixError)"
proof -
  have "validateContact s =
     (if stripSeparators s = [] \<or> startsWith (stripSeparators s) (js ''010'')
          \<or> startsWith (stripSeparators s) (js ''011'')
      then (True, []) else (False, prefixError))"
    by (auto simp: validateContact_def Let_def)
  moreover have "prefixError \<noteq> []"
    by (simp add: prefixError_def)
  moreover have "validateContact (js ''02112345678'') = (False, prefixError)"
    by (simp add: validateContact_def stripSeparators_def startsWith_def js_def dash_def
        isWhiteSpace_def)
  moreover have "validateContact (formatContact (js ''02112345678'')) = (False, prefixError)"
    by (simp add: validateContact_def stripSeparators_def startsWith_def formatContact_groups
        js_def isDigit_def dash_def isWhiteSpace_def)
  ultimately show ?thesis by blast
qed

theorem validateContact_prefix_witness:
  "validateContact (js ''010-1234-5678'') = (True, [])
   \<and> validateContact (js '' - '') = (True, [])
   \<and> validateContact (js ''011 222'') = (True, [])
   \<and> validateContact (js ''012'') = (False, prefixError)"
  using validateContact_prefix [of "js ''010-1234-5678''"] validateContact_prefix [of "js '' - ''"]
    validateContact_prefix [of "js ''011 222''"] validateContact_prefix [of "js ''012''"]
  by (simp add: stripSeparators_def startsWith_def js_def dash_def isWhiteSpace_def)

section \<open>Properties of the form flow\<close>

lemma caught_None_iff: "caught outcome = None \<longleftrightarrow> outcome = ResponseOk"
  by (cases outcome) (auto simp: caught_def split: sum.splits)

lemma snd_validateContact_empty:
  "snd (validateContact c) = [] \<longleftrightarrow>
     stripSeparators c = [] \<or> startsWith (stripSeparators c) (js ''010'')
       \<or> startsWith (stripSeparators c) (js ''011'')"
  by (auto simp: validateContact_def Let_def prefixError_def)

subsection \<open>First page\<close>

lemma settle1_ok:
  "handleSubmitSettle1 ResponseOk st = st\<lparr>state1.step := 3, state1.loading := False\<rparr>"
  by (simp add: handleSubmitSettle1_def caught_def)

lemma settle1_failed:
  "outcome \<noteq> ResponseOk \<Longrightarrow>
   \<exists>e. caught outcome = Some e \<and>
     handleSubmitSettle1 outcome st =
       st\<lparr>state1.errorLog := state1.errorLog st @ [e],
          state1.alerts := state1.alerts st @ [alertText e],
          state1.loading := False\<rparr>"
  by (cases "caught outcome") (auto simp: handleSubmitSettle1_def caught_None_iff)

lemma handleEvent1_step:
  "state1.step (handleEvent1 inh st ev) = state1.step st
   \<or> (state1.step st = 1 \<and> ev = ClickNext \<and> state1.step (handleEvent1 inh st ev) = 2)
   \<or> (state1.loading st \<and> ev = Settle ResponseOk \<and> state1.step (handleEvent1 inh st ev) = 3)"
proof (cases ev)
  case (Settle outcome)
  then show ?thesis
    using settle1_ok [of st] settle1_failed [of outcome st]
    by (cases "outcome = ResponseOk") auto
qed (auto simp: handleSubmitSend1_def toggleCourse_def confirmCourseSelection_def Let_def
      split: option.splits)

lemma handleEvent1_loading:
  "state1.loading (handleEvent1 inh st ev) \<longrightarrow>
     (state1.loading st \<and> state1.step (handleEvent1 inh st ev) = state1.step st)
     \<or> state1.step (handleEvent1 inh st ev) = 2"
proof (cases ev)
  case (Settle outcome)
  then show ?thesis
    using settle1_ok [of st] settle1_failed [of outcome st]
    by (cases "outcome = ResponseOk") auto
qed (auto simp: handleSubmitSend1_def toggleCourse_def confirmCourseSelection_def Let_def
      split: option.splits if_splits)

lemma run1_snoc: "run1 inh (evs @ [ev]) = handleEvent1 inh (run1 inh evs) ev"
  by (simp add: run1_def)

lemma run1_inv:
  "state1.step (run1 inh evs) \<in> {1, 2, 3}
   \<and> (state1.loading (run1 inh evs) \<longrightarrow> state1.step (run1 inh evs) = 2)"
proof (induction evs rule: rev_induct)
  case Nil
  show ?case by (simp add: run1_def initialState1_def)
next
  case (snoc ev evs)
  let ?st = "run1 inh evs"
  from handleEvent1_step [of inh ?st ev] snoc
  have a: "state1.step (handleEvent1 inh ?st ev) \<in> {1, 2, 3}" by auto
  from handleEvent1_loading [of inh ?st ev] snoc
  have b: "state1.loading (handleEvent1 inh ?st ev) \<longrightarrow> state1.step (handleEvent1 inh ?st ev) = 2"
    by auto
  from a b show ?case by (simp only: run1_snoc)
qed

lemma run1_transition:
  "state1.step (run1 inh evs) \<le> state1.step (handleEvent1 inh (run1 inh evs) ev)
   \<and> state1.step (handleEvent1 inh (run1 inh evs) ev) \<in> {1, 2, 3}
   \<and> (state1.step (handleEvent1 inh (run1 inh evs) ev) \<noteq> state1.step (run1 inh evs) \<longrightarrow>
        (state1.step (run1 inh evs) = 1 \<and> ev = ClickNext
           \<and> state1.step (handleEvent1 inh (run1 inh evs) ev) = 2)
        \<or> (state1.step (run1 inh evs) = 2 \<and> ev = Settle ResponseOk
           \<and> state1.step (handleEvent1 inh (run1 inh evs) ev) = 3))
   \<and> (state1.step (run1 inh evs) = 3 \<longrightarrow> state1.step (handleEvent1 inh (run1 inh evs) ev) = 3)"
proof -
  let ?st = "run1 inh evs"
  have i: "state1.step ?st \<in> {1, 2, 3}" "state1.loading ?st \<longrightarrow> state1.step ?st = 2"
    using run1_inv [of inh evs] by simp_all
  from handleEvent1_step [of inh ?st ev] i show ?thesis by auto
qed

lemma run1_monotone:
  "state1.step (run1 inh evs) \<le> state1.step (run1 inh (evs @ rest))"
proof (induction rest rule: rev_induct)
  case Nil
  show ?case by simp
next
  case (snoc ev rest)
  have "state1.step (run1 inh (evs @ rest))
          \<le> state1.step (handleEvent1 inh (run1 inh (evs @ rest)) ev)"
    using run1_transition [of inh "evs @ rest" ev] by simp
  with snoc show ?case
    by (simp only: append_assoc [symmetric] run1_snoc)
qed

lemma handleEvent1_contactError:
  "state1.contactError st = snd (validateContact (formData1.contact (state1.formData st))) \<longrightarrow>
   state1.contactError (handleEvent1 inh st ev)
     = snd (validateContact (formData1.contact (state1.formData (handleEvent1 inh st ev))))"
proof (cases ev)
  case (Settle outcome)
  then show ?thesis
    using settle1_ok [of st] settle1_failed [of outcome st]
    by (cases "outcome = ResponseOk") auto
qed (auto simp: handleSubmitSend1_def toggleCourse_def confirmCourseSelection_def Let_def
      split: option.splits)

lemma run1_contactError:
  "state1.contactError (run1 inh evs)
     = snd (validateContact (formData1.contact (state1.formData (run1 inh evs))))"
proof (induction evs rule: rev_induct)
  case Nil
  show ?case by (simp add: run1_def initialState1_def validateContact_def stripSeparators_def)
next
  case (snoc ev evs)
  then show ?case
    using handleEvent1_contactError [of "run1 inh evs" inh ev] by (simp only: run1_snoc)
qed

subsection \<open>Second page\<close>

lemma settle2_ok:
  "handleSubmitSettle2 ResponseOk st = st\<lparr>state2.step := 3, state2.loading := False\<rparr>"
  by (simp add: handleSubmitSettle2_def caught_def)

lemma settle2_failed:
  "outcome \<noteq> ResponseOk \<Longrightarrow>
   \<exists>e. caught outcome = Some e \<and>
     handleSubmitSettle2 outcome st =
       st\<lparr>state2.errorLog := state2.errorLog st @ [e],
          state2.alerts := state2.alerts st @ [alertText e],
          state2.loading := False\<rparr>"
  by (cases "caught outcome") (auto simp: handleSubmitSettle2_def caught_None_iff)

lemma handleEvent2_step:
  "state2.step (handleEvent2 inh st ev) = state2.step st
   \<or> (state2.loading st \<and> ev = Settle ResponseOk \<and> state2.step (handleEvent2 inh st ev) = 3)"
proof (cases ev)
  case (Settle outcome)
  then show ?thesis
    using settle2_ok [of st] settle2_failed [of outcome st]
    by (cases "outcome = ResponseOk") auto
qed (auto simp: handleSubmitSend2_def Let_def split: option.splits)

lemma handleEvent2_loading:
  "state2.loading (handleEvent2 inh st ev) \<longrightarrow>
     (state2.loading st \<and> state2.step (handleEvent2 inh st ev) = state2.step st)
     \<or> state2.step (handleEvent2 inh st ev) = 2"
proof (cases ev)
  case (Settle outcome)
  then show ?thesis
    using settle2_ok [of st] settle2_failed [of outcome st]
    by (cases "outcome = ResponseOk") auto
qed (auto simp: handleSubmitSend2_def Let_def split: option.splits if_splits)

lemma run2_snoc: "run2 inh (evs @ [ev]) = handleEvent2 inh (run2 inh evs) ev"
  by (simp add: run2_def)

lemma run2_inv:
  "state2.step (run2 inh evs) \<in> {2, 3}
   \<and> (state2.loading (run2 inh evs) \<longrightarrow> state2.step (run2 inh evs) = 2)"
proof (induction evs rule: rev_induct)
  case Nil
  show ?case by (simp add: run2_def initialState2_def)
next
  case (snoc ev evs)
  let ?st = "run2 inh evs"
  from handleEvent2_step [of inh ?st ev] snoc
  have a: "state2.step (handleEvent2 inh ?st ev) \<in> {2, 3}" by auto
  from handleEvent2_loading [of inh ?st ev] snoc
  have b: "state2.loading (handleEvent2 inh ?st ev) \<longrightarrow> state2.step (handleEvent2 inh ?st ev) = 2"
    by auto
  from a b show ?case by (simp only: run2_snoc)
qed

lemma run2_transition:
  "state2.step (run2 inh evs) \<le> state2.step (handleEvent2 inh (run2 inh evs) ev)
   \<and> state2.step (handleEvent2 inh (run2 inh evs) ev) \<in> {2, 3}
   \<and> (state2.step (handleEvent2 inh (run2 inh evs) ev) \<noteq> state2.step (run2 inh evs) \<longrightarrow>
        state2.step (run2 inh evs) = 2 \<and> ev = Settle ResponseOk
          \<and> state2.step (handleEvent2 inh (run2 inh evs) ev) = 3)
   \<and> (state2.step (run2 inh evs) = 3 \<longrightarrow> state2.step (handleEvent2 inh (run2 inh evs) ev) = 3)"
proof -
  let ?st = "run2 inh evs"
  have i: "state2.step ?st \<in> {2, 3}" "state2.loading ?st \<longrightarrow> state2.step ?st = 2"
    using run2_inv [of inh evs] by simp_all
  from handleEvent2_step [of inh ?st ev] i show ?thesis by auto
qed

lemma run2_monotone:
  "state2.step (run2 inh evs) \<le> state2.step (run2 inh (evs @ rest))"
proof (induction rest rule: rev_induct)
  case Nil
  show ?case by simp
next
  case (snoc ev rest)
  have "state2.step (run2 inh (evs @ rest))
          \<le> state2.step (handleEvent2 inh (run2 inh (evs @ rest)) ev)"
    using run2_transition [of inh "evs @ rest" ev] by simp
  with snoc show ?case
    by (simp only: append_assoc [symmetric] run2_snoc)
qed

lemma handleEvent2_contactError:
  "state2.contactError st = snd (validateContact (formData2.contact (state2.formData st))) \<longrightarrow>
   state2.contactError (handleEvent2 inh st ev)
     = snd (validateContact (formData2.contact (state2.formData (handleEvent2 inh st ev))))"
proof (cases ev)
  case (Settle outcome)
  then show ?thesis
    using settle2_ok [of st] settle2_failed [of outcome st]
    by (cases "outcome = ResponseOk") auto
qed (auto simp: handleSubmitSend2_def Let_def split: option.splits)

lemma run2_contactError:
  "state2.contactError (run2 inh evs)
     = snd (validateContact (formData2.contact (state2.formData (run2 inh evs))))"
proof (induction evs rule: rev_induct)
  case Nil
  show ?case by (simp add: run2_def initialState2_def validateContact_def stripSeparators_def)
next
  case (snoc ev evs)
  then show ?case
    using handleEvent2_contactError [of "run2 inh evs" inh ev] by (simp only: run2_snoc)
qed

text \<open>
  C3. On each page \<open>isFormValid\<close> holds exactly when every required field of that page
  satisfies its own condition at the same time, so it is false as soon as one condition
  fails whatever the other fields hold: name not empty, contact of at least 10 characters
  besides separators, no contact error, privacy consent, and on the second page also a
  selected service, a practice date of 7 characters when the practice service is selected,
  a hoped employment time and a support-fund choice. In every state the page can reach,
  the contact error is empty exactly when the contact without separators is empty or
  begins with 010 or 011, so a contact with another prefix makes the form invalid.
\<close>

theorem isFormValid_required_fields:
  "(isFormValid1 s \<longleftrightarrow>
      formData1.name (state1.formData s) \<noteq> []
      \<and> 10 \<le> length (stripSeparators (formData1.contact (state1.formData s)))
      \<and> state1.contactError s = []
      \<and> state1.privacyAgreed s)
   \<and> (isFormValid2 t \<longleftrightarrow>
      formData2.name (state2.formData t) \<noteq> []
      \<and> 10 \<le> length (stripSeparators (formData2.contact (state2.formData t)))
      \<and> state2.contactError t = []
      \<and> (service_practice (state2.formData t) \<or> service_employment (state2.formData t))
      \<and> (service_practice (state2.formData t) \<longrightarrow>
            length (practice_planned_date (state2.formData t)) = 7)
      \<and> employment_hope_time (state2.formData t) \<noteq> []
      \<and> employment_support_fund (state2.formData t) \<noteq> []
      \<and> state2.privacyAgreed t)
   \<and> (s = run1 inherited evsA \<longrightarrow>
        (state1.contactError s = [] \<longleftrightarrow>
           stripSeparators (formData1.contact (state1.formData s)) = []
           \<or> startsWith (stripSeparators (formData1.contact (state1.formData s))) (js ''010'')
           \<or> startsWith (stripSeparators (formData1.contact (state1.formData s))) (js ''011'')))
   \<and> (t = run2 inherited evsB \<longrightarrow>
        (state2.contactError t = [] \<longleftrightarrow>
           stripSeparators (formData2.contact (state2.formData t)) = []
           \<or> startsWith (stripSeparators (formData2.contact (state2.formData t))) (js ''010'')
           \<or> startsWith (stripSeparators (formData2.contact (state2.formData t))) (js ''011'')))"
proof -
  have a: "isFormValid1 s \<longleftrightarrow>
      formData1.name (state1.formData s) \<noteq> []
      \<and> 10 \<le> length (stripSeparators (formData1.contact (state1.formData s)))
      \<and> state1.contactError s = []
      \<and> state1.privacyAgreed s"
    by (simp add: isFormValid1_def)
  have b: "isFormValid2 t \<longleftrightarrow>
      formData2.name (state2.formData t) \<noteq> []
      \<and> 10 \<le> length (stripSeparators (formData2.contact (state2.formData t)))
      \<and> state2.contactError t = []
      \<and> (service_practice (state2.formData t) \<or> service_employment (state2.formData t))
      \<and> (service_practice (state2.formData t) \<longrightarrow>
            length (practice_planned_date (state2.formData t)) = 7)
      \<and> employment_hope_time (state2.formData t) \<noteq> []
      \<and> employment_support_fund (state2.formData t) \<noteq> []
      \<and> state2.privacyAgreed t"
    by (auto simp: isFormValid2_def)
  have c: "s = run1 inherited evsA \<longrightarrow>
        (state1.contactError s = [] \<longleftrightarrow>
           stripSeparators (formData1.contact (state1.formData s)) = []
           \<or> startsWith (stripSeparators (formData1.contact (state1.formData s))) (js ''010'')
           \<or> startsWith (stripSeparators (formData1.contact (state1.formData s))) (js ''011''))"
    using run1_contactError [of inherited evsA]
    by (simp only: snd_validateContact_empty [symmetric]) simp
  have d: "t = run2 inherited evsB \<longrightarrow>
        (state2.contactError t = [] \<longleftrightarrow>
           stripSeparators (formData2.contact (state2.formData t)) = []
           \<or> startsWith (stripSeparators (formData2.contact (state2.formData t))) (js ''010'')
           \<or> startsWith (stripSeparators (formData2.contact (state2.formData t))) (js ''011''))"
    using run2_contactError [of inherited evsB]
    by (simp only: snd_validateContact_empty [symmetric]) simp
  from a b c d show ?thesis by (intro conjI)
qed

theorem isFormValid_required_fields_witness:
  "isFormValid2 (run2 Map.empty
      [ChangeName (js ''Kim''), ChangeContact (js ''0101234567''), CheckEmployment,
       ChooseHopeTime [0xBC14, 0xB85C, 0x0020, 0xCDE8, 0xC5C5], ChooseSupportFund fundNotHoped,
       ChangePrivacy True])
   \<and> \<not> isFormValid1 (run1 Map.empty [ClickNext, ChangeName (js ''Kim''), ChangeContact (js ''021'')])
   \<and> state1.contactError (run1 Map.empty [ClickNext, ChangeName (js ''Kim''), ChangeContact (js ''021'')])
       \<noteq> []"
proof -
  define evsA where "evsA = [ClickNext, ChangeName (js ''Kim''), ChangeContact (js ''021'')]"
  define evsB where "evsB =
      [ChangeName (js ''Kim''), ChangeContact (js ''0101234567''), CheckEmployment,
       ChooseHopeTime [0xBC14, 0xB85C, 0x0020, 0xCDE8, 0xC5C5], ChooseSupportFund fundNotHoped,
       ChangePrivacy True]"
  define s where "s = run1 Map.empty evsA"
  define t where "t = run2 Map.empty evsB"
  have c: "formData1.contact (state1.formData s) = js ''021''"
    by (simp add: s_def evsA_def run1_def initialState1_def formatContact_groups js_def
        isDigit_def Let_def)
  have v: "formData2.name (state2.formData t) \<noteq> []"
    "10 \<le> length (stripSeparators (formData2.contact (state2.formData t)))"
    "state2.contactError t = []"
    "service_employment (state2.formData t)"
    "\<not> service_practice (state2.formData t)"
    "employment_hope_time (state2.formData t) \<noteq> []"
    "employment_support_fund (state2.formData t) \<noteq> []"
    "state2.privacyAgreed t"
    by (simp_all add: t_def evsB_def run2_def initialState2_def formatContact_groups
        validateContact_def stripSeparators_def startsWith_def isWhiteSpace_def isDigit_def
        dash_def js_def hopeTimeOptions_def fundNotHoped_def fundHoped_def Let_def)
  have p: "stripSeparators (js ''021'') \<noteq> []"
    "\<not> startsWith (stripSeparators (js ''021'')) (js ''010'')"
    "\<not> startsWith (stripSeparators (js ''021'')) (js ''011'')"
    by (simp_all add: stripSeparators_def startsWith_def isWhiteSpace_def dash_def js_def)
  note r = isFormValid_required_fields [where inherited = Map.empty and s = s and evsA = evsA
      and t = t and evsB = evsB]
  from r v have "isFormValid2 t"
    by blast
  moreover from r c p s_def have e: "state1.contactError s \<noteq> []"
    by simp
  moreover from r e have "\<not> isFormValid1 s"
    by blast
  ultimately show ?thesis
    by (simp add: s_def t_def evsA_def evsB_def)
qed

lemma handleSubmit1_ok:
  "handleSubmit1 ResponseOk st =
     st\<lparr>state1.step := 3, state1.loading := False,
        state1.posted := state1.posted st @ [submitData1 st]\<rparr>"
  by (simp add: handleSubmit1_def handleSubmitSend1_def settle1_ok)

lemma handleSubmit1_failed:
  "caught outcome = Some e \<Longrightarrow>
   handleSubmit1 outcome st =
     st\<lparr>state1.loading := False,
        state1.posted := state1.posted st @ [submitData1 st],
        state1.errorLog := state1.errorLog st @ [e],
        state1.alerts := state1.alerts st @ [alertText e]\<rparr>"
  by (simp add: handleSubmit1_def handleSubmitSend1_def handleSubmitSettle1_def)

lemma handleSubmit2_ok:
  "handleSubmit2 ResponseOk st =
     st\<lparr>state2.step := 3, state2.loading := False,
        state2.posted := state2.posted st @ [submitData2 st]\<rparr>"
  by (simp add: handleSubmit2_def handleSubmitSend2_def settle2_ok)

lemma handleSubmit2_failed:
  "caught outcome = Some e \<Longrightarrow>
   handleSubmit2 outcome st =
     st\<lparr>state2.loading := False,
        state2.posted := state2.posted st @ [submitData2 st],
        state2.errorLog := state2.errorLog st @ [e],
        state2.alerts := state2.alerts st @ [alertText e]\<rparr>"
  by (simp add: handleSubmit2_def handleSubmitSend2_def handleSubmitSettle2_def)

lemma caught_cases:
  "caught (FetchRejects x) = Some x"
  "caught (ResponseNotOk (Inl x)) = Some x"
  "caught (ResponseNotOk (Inr None)) = Some (ErrorInstance saveFailed)"
  "caught (ResponseNotOk (Inr (Some m))) = Some (ErrorInstance (if m = [] then saveFailed else m))"
  by (simp_all add: caught_def truthy_def)

lemma alertText_cases:
  "alertText (ErrorInstance m) = m"
  "alertText NotAnError = saveFailedRetry"
  by (simp_all add: alertText_def)

text \<open>
  C7, as stated, fails: when the request itself fails, the alert shows neither a message
  of the server nor a fixed fallback, but the message of the error that \<open>fetch\<close> threw.
\<close>

theorem handleSubmit_request_failure_counterexample:
  "state2.step initialState2 = 2
   \<and> state2.alerts (handleSubmit2 (FetchRejects (ErrorInstance (js ''Failed to fetch''))) initialState2)
       = [js ''Failed to fetch'']
   \<and> js ''Failed to fetch'' \<noteq> saveFailed
   \<and> js ''Failed to fetch'' \<noteq> saveFailedRetry"
  by (simp add: handleSubmit2_failed caught_cases alertText_cases)
     (simp add: initialState2_def js_def saveFailed_def saveFailedRetry_def)

text \<open>
  C7, amended. For every run of \<open>handleSubmit\<close> from step 2, on both pages: after a
  successful response the step is 3, nothing is alerted and the busy flag is reset; after
  any other outcome the step is still 2, the busy flag is reset and exactly one alert is
  shown. After a non-success response whose body can be read the alert shows the server's
  error message when it is present and not empty, and the fixed fallback \<open>saveFailed\<close>
  otherwise. When the request itself, or reading the error body, throws, the alert shows
  the message of the thrown error, and the second fixed fallback \<open>saveFailedRetry\<close> only
  when the thrown value is not an \<open>Error\<close>.
\<close>

theorem handleSubmit_outcomes:
  assumes "state1.step s = 2" and "state2.step t = 2"
  shows "state1.step (handleSubmit1 ResponseOk s) = 3
     \<and> \<not> state1.loading (handleSubmit1 ResponseOk s)
     \<and> state1.alerts (handleSubmit1 ResponseOk s) = state1.alerts s
     \<and> state2.step (handleSubmit2 ResponseOk t) = 3
     \<and> \<not> state2.loading (handleSubmit2 ResponseOk t)
     \<and> state2.alerts (handleSubmit2 ResponseOk t) = state2.alerts t
     \<and> (outcome \<noteq> ResponseOk \<longrightarrow>
          state1.step (handleSubmit1 outcome s) = 2
          \<and> \<not> state1.loading (handleSubmit1 outcome s)
          \<and> state2.step (handleSubmit2 outcome t) = 2
          \<and> \<not> state2.loading (handleSubmit2 outcome t)
          \<and> (\<exists>a. state1.alerts (handleSubmit1 outcome s) = state1.alerts s @ [a]
                 \<and> state2.alerts (handleSubmit2 outcome t) = state2.alerts t @ [a]
                 \<and> (outcome = ResponseNotOk (Inr None) \<longrightarrow> a = saveFailed)
                 \<and> (outcome = ResponseNotOk (Inr (Some [])) \<longrightarrow> a = saveFailed)
                 \<and> (\<forall>m. m \<noteq> [] \<and> outcome = ResponseNotOk (Inr (Some m)) \<longrightarrow> a = m)
                 \<and> (\<forall>m. outcome = FetchRejects (ErrorInstance m)
                          \<or> outcome = ResponseNotOk (Inl (ErrorInstance m)) \<longrightarrow> a = m)
                 \<and> (outcome = FetchRejects NotAnError
                      \<or> outcome = ResponseNotOk (Inl NotAnError) \<longrightarrow> a = saveFailedRetry)))"
proof -
  have ok: "state1.step (handleSubmit1 ResponseOk s) = 3
     \<and> \<not> state1.loading (handleSubmit1 ResponseOk s)
     \<and> state1.alerts (handleSubmit1 ResponseOk s) = state1.alerts s
     \<and> state2.step (handleSubmit2 ResponseOk t) = 3
     \<and> \<not> state2.loading (handleSubmit2 ResponseOk t)
     \<and> state2.alerts (handleSubmit2 ResponseOk t) = state2.alerts t"
    by (simp add: handleSubmit1_ok handleSubmit2_ok)
  have failed: "state1.step (handleSubmit1 outcome s) = 2
          \<and> \<not> state1.loading (handleSubmit1 outcome s)
          \<and> state2.step (handleSubmit2 outcome t) = 2
          \<and> \<not> state2.loading (handleSubmit2 outcome t)
          \<and> (\<exists>a. state1.alerts (handleSubmit1 outcome s) = state1.alerts s @ [a]
                 \<and> state2.alerts (handleSubmit2 outcome t) = state2.alerts t @ [a]
                 \<and> (outcome = ResponseNotOk (Inr None) \<longrightarrow> a = saveFailed)
                 \<and> (outcome = ResponseNotOk (Inr (Some [])) \<longrightarrow> a = saveFailed)
                 \<and> (\<forall>m. m \<noteq> [] \<and> outcome = ResponseNotOk (Inr (Some m)) \<longrightarrow> a = m)
                 \<and> (\<forall>m. outcome = FetchRejects (ErrorInstance m)
                          \<or> outcome = ResponseNotOk (Inl (ErrorInstance m)) \<longrightarrow> a = m)
                 \<and> (outcome = FetchRejects NotAnError
                      \<or> outcome = ResponseNotOk (Inl NotAnError) \<longrightarrow> a = saveFailedRetry))"
    if "outcome \<noteq> ResponseOk"
  proof -
    from that obtain e where e: "caught outcome = Some e"
      by (cases "caught outcome") (auto simp: caught_None_iff)
    have "(outcome = ResponseNotOk (Inr None) \<longrightarrow> alertText e = saveFailed)
        \<and> (outcome = ResponseNotOk (Inr (Some [])) \<longrightarrow> alertText e = saveFailed)
        \<and> (\<forall>m. m \<noteq> [] \<and> outcome = ResponseNotOk (Inr (Some m)) \<longrightarrow> alertText e = m)
        \<and> (\<forall>m. outcome = FetchRejects (ErrorInstance m)
                 \<or> outcome = ResponseNotOk (Inl (ErrorInstance m)) \<longrightarrow> alertText e = m)
        \<and> (outcome = FetchRejects NotAnError
             \<or> outcome = ResponseNotOk (Inl NotAnError) \<longrightarrow> alertText e = saveFailedRetry)"
      using e by (auto simp: caught_cases alertText_cases)
    then show ?thesis
      using assms by (simp add: handleSubmit1_failed [OF e] handleSubmit2_failed [OF e])
  qed
  from ok failed show ?thesis by blast
qed

theorem handleSubmit_outcomes_witness:
  "state2.step (handleSubmit2 ResponseOk initialState2) = 3
   \<and> state2.step (handleSubmit2 (ResponseNotOk (Inr (Some (js ''duplicate'')))) initialState2) = 2
   \<and> \<not> state2.loading (handleSubmit2 (ResponseNotOk (Inr (Some (js ''duplicate'')))) initialState2)
   \<and> state2.alerts (handleSubmit2 (ResponseNotOk (Inr (Some (js ''duplicate'')))) initialState2)
       = [js ''duplicate'']"
proof -
  have s: "state1.step (initialState1\<lparr>state1.step := 2\<rparr>) = 2" "state2.step initialState2 = 2"
    by (simp_all add: initialState2_def)
  have n: "js ''duplicate'' \<noteq> []" "ResponseNotOk (Inr (Some (js ''duplicate''))) \<noteq> ResponseOk"
    by (simp_all add: js_def)
  have a: "state2.alerts initialState2 = []"
    by (simp add: initialState2_def)
  show ?thesis
    using handleSubmit_outcomes [OF s, of "ResponseNotOk (Inr (Some (js ''duplicate'')))"] n a
    by auto
qed

text \<open>
  C8. The step marker starts at 1 on the first page and at 2 on the second. In every
  state the page can reach and for every event, the step does not decrease, stays within
  1, 2, 3 (within 2, 3 on the second page), and changes only from 1 to 2 by the next button
  or from 2 to 3 when the submission settles with a successful response; from step 3 no
  event changes it. Hence the step never decreases along any sequence of events.
\<close>

theorem step_only_advances:
  "state1.step initialState1 = 1
   \<and> state2.step initialState2 = 2
   \<and> state1.step (run1 inherited evsA) \<le> state1.step (handleEvent1 inherited (run1 inherited evsA) ev)
   \<and> state1.step (handleEvent1 inherited (run1 inherited evsA) ev) \<in> {1, 2, 3}
   \<and> (state1.step (handleEvent1 inherited (run1 inherited evsA) ev) \<noteq> state1.step (run1 inherited evsA) \<longrightarrow>
        (state1.step (run1 inherited evsA) = 1 \<and> ev = ClickNext
           \<and> state1.step (handleEvent1 inherited (run1 inherited evsA) ev) = 2)
        \<or> (state1.step (run1 inherited evsA) = 2 \<and> ev = Settle ResponseOk
           \<and> state1.step (handleEvent1 inherited (run1 inherited evsA) ev) = 3))
   \<and> (state1.step (run1 inherited evsA) = 3 \<longrightarrow>
        state1.step (handleEvent1 inherited (run1 inherited evsA) ev) = 3)
   \<and> state2.step (run2 inherited evsB) \<le> state2.step (handleEvent2 inherited (run2 inherited evsB) ev)
   \<and> state2.step (handleEvent2 inherited (run2 inherited evsB) ev) \<in> {2, 3}
   \<and> (state2.step (handleEvent2 inherited (run2 inherited evsB) ev) \<noteq> state2.step (run2 inherited evsB) \<longrightarrow>
        state2.step (run2 inherited evsB) = 2 \<and> ev = Settle ResponseOk
          \<and> state2.step (handleEvent2 inherited (run2 inherited evsB) ev) = 3)
   \<and> (state2.step (run2 inherited evsB) = 3 \<longrightarrow>
        state2.step (handleEvent2 inherited (run2 inherited evsB) ev) = 3)
   \<and> state1.step (run1 inherited evsA) \<le> state1.step (run1 inherited (evsA @ rest))
   \<and> state2.step (run2 inherited evsB) \<le> state2.step (run2 inherited (evsB @ rest))"
proof -
  have "state1.step initialState1 = 1" "state2.step initialState2 = 2"
    by (simp_all add: initialState1_def initialState2_def)
  then show ?thesis
    using run1_transition [of inherited evsA ev] run2_transition [of inherited evsB ev]
      run1_monotone [of inherited evsA rest] run2_monotone [of inherited evsB rest]
    by (elim conjE) (intro conjI; assumption)
qed

subsection \<open>The payload of the second page\<close>

lemma replaceFirstDash_none: "dash \<notin> set xs \<Longrightarrow> replaceFirstDash xs = xs"
  by (induction xs) auto

lemma replaceFirstDash_first:
  "dash \<notin> set xs \<Longrightarrow> replaceFirstDash (xs @ dash # ys) = xs @ ys"
  by (induction xs) auto

lemma formatPracticeDate_groups:
  "formatPracticeDate v =
     (let d = take 6 (filter isDigit v) in
      if length d \<le> 4 then d else take 4 d @ dash # drop 4 d)"
  by (simp add: formatPracticeDate_def stripNonDigits_def slice_def sliceFrom_def Let_def min_def)

lemma formatPracticeDate_empty: "formatPracticeDate [] = []"
  by (simp add: formatPracticeDate_groups)

lemma digits_no_dash: "dash \<notin> set (take n (filter isDigit v))"
proof
  assume "dash \<in> set (take n (filter isDigit v))"
  then have "dash \<in> set (filter isDigit v)"
    by (rule in_set_takeD)
  then have "isDigit dash"
    by simp
  then show False
    by (simp add: not_digit_dash)
qed

lemma replaceFirstDash_formatPracticeDate:
  "replaceFirstDash (formatPracticeDate v) = take 6 (filter isDigit v)"
proof -
  define d where "d = take 6 (filter isDigit v)"
  have nd1: "dash \<notin> set d"
    unfolding d_def by (rule digits_no_dash)
  then have nd2: "dash \<notin> set (take 4 d)"
    using in_set_takeD [of dash 4 d] by blast
  note nd = nd1 nd2
  show ?thesis
    unfolding formatPracticeDate_groups d_def [symmetric] Let_def
    using nd by (simp add: replaceFirstDash_none replaceFirstDash_first)
qed

lemma filter_formatPracticeDate:
  "filter (\<lambda>c. c \<noteq> dash) (formatPracticeDate v) = take 6 (filter isDigit v)"
proof -
  define d where "d = take 6 (filter isDigit v)"
  have nd: "\<forall>x\<in>set d. x \<noteq> dash"
    using digits_no_dash [of 6 v] by (auto simp: d_def)
  have "filter (\<lambda>c. c \<noteq> dash) d = d"
    using nd by simp
  moreover have "filter (\<lambda>c. c \<noteq> dash) (take 4 d) = take 4 d"
    "filter (\<lambda>c. c \<noteq> dash) (drop 4 d) = drop 4 d"
    using nd by (simp_all add: filter_take_all filter_drop_all)
  ultimately show ?thesis
    unfolding formatPracticeDate_groups d_def [symmetric] Let_def by simp
qed

lemma length_formatPracticeDate:
  "length (formatPracticeDate v) = 7 \<Longrightarrow> length (take 6 (filter isDigit v)) = 6"
  by (simp add: formatPracticeDate_groups Let_def split: if_splits)

lemma handleEvent2_date:
  "(\<exists>v. practice_planned_date (state2.formData st) = formatPracticeDate v) \<longrightarrow>
   (\<exists>v. practice_planned_date (state2.formData (handleEvent2 inh st ev)) = formatPracticeDate v)"
proof (cases ev)
  case (Settle outcome)
  then show ?thesis
    using settle2_ok [of st] settle2_failed [of outcome st]
    by (cases "outcome = ResponseOk") auto
next
  case CheckEmployment
  then show ?thesis
    using formatPracticeDate_empty by (auto intro: exI [of _ "[]"])
qed (auto simp: handleSubmitSend2_def Let_def split: option.splits)

lemma run2_date:
  "\<exists>v. practice_planned_date (state2.formData (run2 inh evs)) = formatPracticeDate v"
proof (induction evs rule: rev_induct)
  case Nil
  show ?case
    by (auto simp: run2_def initialState2_def formatPracticeDate_empty intro: exI [of _ "[]"])
next
  case (snoc ev evs)
  then show ?case
    using handleEvent2_date [of "run2 inh evs" inh ev] by (simp only: run2_snoc)
qed

lemma handleEvent2_fund:
  "employment_support_fund (state2.formData st) \<in> {[], fundHoped, fundNotHoped} \<longrightarrow>
   employment_support_fund (state2.formData (handleEvent2 inh st ev)) \<in> {[], fundHoped, fundNotHoped}"
proof (cases ev)
  case (Settle outcome)
  then show ?thesis
    using settle2_ok [of st] settle2_failed [of outcome st]
    by (cases "outcome = ResponseOk") auto
qed (auto simp: handleSubmitSend2_def Let_def split: option.splits)

lemma run2_fund:
  "employment_support_fund (state2.formData (run2 inh evs)) \<in> {[], fundHoped, fundNotHoped}"
proof (induction evs rule: rev_induct)
  case Nil
  show ?case
    by (simp add: run2_def initialState2_def)
next
  case (snoc ev evs)
  then show ?case
    using handleEvent2_fund [of "run2 inh evs" inh ev] by (simp only: run2_snoc)
qed

lemma handleEvent2_posted:
  "state2.posted (handleEvent2 inh st ev) = state2.posted st
   \<or> (isFormValid2 st \<and> state2.posted (handleEvent2 inh st ev) = state2.posted st @ [submitData2 st])"
proof (cases ev)
  case (Settle outcome)
  then show ?thesis
    using settle2_ok [of st] settle2_failed [of outcome st]
    by (cases "outcome = ResponseOk") auto
qed (auto simp: handleSubmitSend2_def Let_def split: option.splits)

lemma submitData2_date:
  assumes "practice_planned_date (state2.formData st) = formatPracticeDate v"
    and "service_practice (state2.formData st)"
  shows "payload2.practice_planned_date (submitData2 st) = Some (take 6 (filter isDigit v))"
  using assms by (simp add: submitData2_def Let_def replaceFirstDash_formatPracticeDate)

lemma run2_posted:
  "\<forall>q \<in> set (state2.posted (run2 inh evs)).
     (payload2.service_practice q \<longrightarrow>
        (\<exists>d. payload2.practice_planned_date q = Some d \<and> length d = 6 \<and> (\<forall>c \<in> set d. isDigit c)))
     \<and> (\<not> payload2.service_practice q \<longrightarrow> payload2.practice_planned_date q = None)"
proof -
  define G where "G = (\<lambda>q :: payload2.
     (payload2.service_practice q \<longrightarrow>
        (\<exists>d. payload2.practice_planned_date q = Some d \<and> length d = 6 \<and> (\<forall>c \<in> set d. isDigit c)))
     \<and> (\<not> payload2.service_practice q \<longrightarrow> payload2.practice_planned_date q = None))"
  have "\<forall>q \<in> set (state2.posted (run2 inh evs)). G q"
  proof (induction evs rule: rev_induct)
    case Nil
    show ?case
      by (simp add: run2_def initialState2_def)
  next
    case (snoc ev evs)
    let ?st = "run2 inh evs"
    obtain v where v: "practice_planned_date (state2.formData ?st) = formatPracticeDate v"
      using run2_date [of inh evs] by blast
    have new: "G (submitData2 ?st)" if valid: "isFormValid2 ?st"
    proof (cases "service_practice (state2.formData ?st)")
      case True
      with valid have "length (practice_planned_date (state2.formData ?st)) = 7"
        by (simp add: isFormValid2_def)
      then have "length (formatPracticeDate v) = 7"
        by (simp only: v)
      then have l: "length (take 6 (filter isDigit v)) = 6"
        by (rule length_formatPracticeDate)
      have g: "\<forall>c \<in> set (take 6 (filter isDigit v)). isDigit c"
        by (auto dest!: in_set_takeD)
      have sp: "payload2.service_practice (submitData2 ?st)"
        using True by (simp add: submitData2_def Let_def)
      from l g sp submitData2_date [OF v True] show ?thesis
        unfolding G_def by blast
    next
      case False
      then have "\<not> payload2.service_practice (submitData2 ?st)"
        "payload2.practice_planned_date (submitData2 ?st) = None"
        by (simp_all add: submitData2_def Let_def)
      then show ?thesis
        unfolding G_def by blast
    qed
    from handleEvent2_posted [of inh ?st ev]
    have "\<forall>q \<in> set (state2.posted (handleEvent2 inh ?st ev)). G q"
    proof
      assume "state2.posted (handleEvent2 inh ?st ev) = state2.posted ?st"
      with snoc show ?thesis
        by simp
    next
      assume h: "isFormValid2 ?st
        \<and> state2.posted (handleEvent2 inh ?st ev) = state2.posted ?st @ [submitData2 ?st]"
      then have "G (submitData2 ?st)"
        using new by blast
      with h snoc show ?thesis
        by simp
    qed
    then show ?case
      by (simp only: run2_snoc)
  qed
  then show ?thesis
    by (simp only: G_def)
qed

text \<open>
  C9. In every state the second page can reach, the payload built at submission has: as
  \<open>type\<close> the label of the three-way choice given by the two service checkboxes (the three
  labels are different); as \<open>practice_planned_date\<close>, when the practice service is selected,
  the stored date without its separator; as \<open>employment_support_fund\<close> the boolean that is
  true exactly when the stored choice is the hoped value, the stored choice being empty,
  hoped or not hoped. Every payload that was sent with the practice service carries a
  date of six digits.
\<close>

theorem submitData2_business_rules:
  assumes "st = run2 inherited evs" and "fd = state2.formData st"
  shows "payload2.type (submitData2 st) =
       (if service_practice fd \<and> service_employment fd then typePracticeAndEmployment
        else if service_practice fd then typePractice else typeEmployment)
     \<and> distinct [typePracticeAndEmployment, typePractice, typeEmployment]
     \<and> (service_practice fd \<longrightarrow>
          payload2.practice_planned_date (submitData2 st)
            = Some (filter (\<lambda>c. c \<noteq> dash) (practice_planned_date fd)))
     \<and> (payload2.employment_support_fund (submitData2 st) \<longleftrightarrow> employment_support_fund fd = fundHoped)
     \<and> employment_support_fund fd \<in> {[], fundHoped, fundNotHoped}
     \<and> (employment_support_fund fd = fundNotHoped \<longrightarrow>
          \<not> payload2.employment_support_fund (submitData2 st))
     \<and> (\<forall>q \<in> set (state2.posted st). payload2.service_practice q \<longrightarrow>
          (\<exists>d. payload2.practice_planned_date q = Some d \<and> length d = 6
                \<and> (\<forall>c \<in> set d. isDigit c)))"
proof -
  obtain v where v: "practice_planned_date (state2.formData st) = formatPracticeDate v"
    using run2_date [of inherited evs] assms(1) by blast
  have a: "payload2.type (submitData2 st) =
       (if service_practice fd \<and> service_employment fd then typePracticeAndEmployment
        else if service_practice fd then typePractice else typeEmployment)"
    using assms(2) by (simp add: submitData2_def Let_def)
  have b: "distinct [typePracticeAndEmployment, typePractice, typeEmployment]"
    by (simp add: typePracticeAndEmployment_def typePractice_def typeEmployment_def)
  have c: "service_practice fd \<longrightarrow>
          payload2.practice_planned_date (submitData2 st)
            = Some (filter (\<lambda>c. c \<noteq> dash) (practice_planned_date fd))"
    using assms(2) v submitData2_date [of st v] filter_formatPracticeDate [of v] by simp
  have d: "payload2.employment_support_fund (submitData2 st) \<longleftrightarrow> employment_support_fund fd = fundHoped"
    using assms(2) by (simp add: submitData2_def Let_def)
  have e: "employment_support_fund fd \<in> {[], fundHoped, fundNotHoped}"
    using run2_fund [of inherited evs] assms by simp
  have f: "employment_support_fund fd = fundNotHoped \<longrightarrow>
          \<not> payload2.employment_support_fund (submitData2 st)"
    using d by (simp add: fundHoped_def fundNotHoped_def)
  have g: "\<forall>q \<in> set (state2.posted st). payload2.service_practice q \<longrightarrow>
          (\<exists>d. payload2.practice_planned_date q = Some d \<and> length d = 6
                \<and> (\<forall>c \<in> set d. isDigit c))"
    using run2_posted [of inherited evs] assms(1) by blast
  from a b c d e f g show ?thesis
    by (intro conjI)
qed

text \<open>
  C10. On the second page, whenever the practice service is not selected the payload's
  \<open>practice_planned_date\<close> is \<open>null\<close>, whatever the stored date is; selecting the
  employment-only option (in step 2, where it is rendered) clears the stored date to the
  empty string; and a payload carries a date only together with the practice service, the
  payload built from any state as well as every payload the page has sent.
\<close>

theorem practice_date_only_with_practice:
  "(\<not> service_practice (state2.formData st) \<longrightarrow>
      payload2.practice_planned_date (submitData2 st) = None)
   \<and> (state2.step st = 2 \<longrightarrow>
        practice_planned_date (state2.formData (handleEvent2 inherited st CheckEmployment)) = []
        \<and> \<not> service_practice (state2.formData (handleEvent2 inherited st CheckEmployment))
        \<and> service_employment (state2.formData (handleEvent2 inherited st CheckEmployment)))
   \<and> (payload2.practice_planned_date (submitData2 st) \<noteq> None \<longrightarrow>
        payload2.service_practice (submitData2 st))
   \<and> (\<forall>q \<in> set (state2.posted (run2 inherited evs)).
        payload2.practice_planned_date q \<noteq> None \<longrightarrow> payload2.service_practice q)"
proof -
  have a: "\<not> service_practice (state2.formData st) \<longrightarrow>
      payload2.practice_planned_date (submitData2 st) = None"
    by (simp add: submitData2_def Let_def)
  have b: "state2.step st = 2 \<longrightarrow>
        practice_planned_date (state2.formData (handleEvent2 inherited st CheckEmployment)) = []
        \<and> \<not> service_practice (state2.formData (handleEvent2 inherited st CheckEmployment))
        \<and> service_employment (state2.formData (handleEvent2 inherited st CheckEmployment))"
    by simp
  have c: "payload2.practice_planned_date (submitData2 st) \<noteq> None \<longrightarrow>
        payload2.service_practice (submitData2 st)"
    by (simp add: submitData2_def Let_def)
  have d: "\<forall>q \<in> set (state2.posted (run2 inherited evs)).
        payload2.practice_planned_date q \<noteq> None \<longrightarrow> payload2.service_practice q"
    using run2_posted [of inherited evs] by fastforce
  from a b c d show ?thesis
    by (intro conjI)
qed

subsection \<open>Example runs\<close>

lemma example_run2_state:
  "state2.step (run2 Map.empty
      [ChangeName (js ''Kim''), ChangeContact (js ''0101234567''), CheckPracticeAndEmployment,
       ChangePracticeDate (js ''202503''), ChooseHopeTime [0xBC14, 0xB85C, 0x0020, 0xCDE8, 0xC5C5],
       ChooseSupportFund fundHoped, ChangePrivacy True, ClickSubmit]) = 2"
  "state2.loading (run2 Map.empty
      [ChangeName (js ''Kim''), ChangeContact (js ''0101234567''), CheckPracticeAndEmployment,
       ChangePracticeDate (js ''202503''), ChooseHopeTime [0xBC14, 0xB85C, 0x0020, 0xCDE8, 0xC5C5],
       ChooseSupportFund fundHoped, ChangePrivacy True, ClickSubmit])"
  "state2.formData (run2 Map.empty
      [ChangeName (js ''Kim''), ChangeContact (js ''0101234567''), CheckPracticeAndEmployment,
       ChangePracticeDate (js ''202503''), ChooseHopeTime [0xBC14, 0xB85C, 0x0020, 0xCDE8, 0xC5C5],
       ChooseSupportFund fundHoped, ChangePrivacy True, ClickSubmit])
   = \<lparr>formData2.name = js ''Kim'', contact = js ''010-1234-567'', service_practice = True,
      service_employment = True, practice_planned_date = js ''2025-03'',
      employment_hope_time = [0xBC14, 0xB85C, 0x0020, 0xCDE8, 0xC5C5],
      employment_support_fund = fundHoped\<rparr>"
  "state2.posted (run2 Map.empty
      [ChangeName (js ''Kim''), ChangeContact (js ''0101234567''), CheckPracticeAndEmployment,
       ChangePracticeDate (js ''202503''), ChooseHopeTime [0xBC14, 0xB85C, 0x0020, 0xCDE8, 0xC5C5],
       ChooseSupportFund fundHoped, ChangePrivacy True, ClickSubmit])
   = [\<lparr>payload2.name = js ''Kim'', contact = js ''010-1234-567'', service_practice = True,
       service_employment = True, practice_planned_date = Some (js ''202503''),
       employment_hope_time = [0xBC14, 0xB85C, 0x0020, 0xCDE8, 0xC5C5],
       employment_support_fund = True, privacy_agreed = True, click_source = homepageName2,
       type = typePracticeAndEmployment\<rparr>]"
  by (simp_all add: run2_def initialState2_def isFormValid2_def handleSubmitSend2_def
      submitData2_def formatContact_groups formatPracticeDate_groups validateContact_def
      stripSeparators_def startsWith_def isWhiteSpace_def isDigit_def dash_def js_def
      hopeTimeOptions_def fundHoped_def Let_def)

theorem step_only_advances_witness:
  "state1.step (run1 Map.empty []) = 1
   \<and> state1.step (handleEvent1 Map.empty (run1 Map.empty []) ClickNext) = 2
   \<and> state2.step (run2 Map.empty
      [ChangeName (js ''Kim''), ChangeContact (js ''0101234567''), CheckPracticeAndEmployment,
       ChangePracticeDate (js ''202503''), ChooseHopeTime [0xBC14, 0xB85C, 0x0020, 0xCDE8, 0xC5C5],
       ChooseSupportFund fundHoped, ChangePrivacy True, ClickSubmit]) = 2
   \<and> state2.step (handleEvent2 Map.empty (run2 Map.empty
      [ChangeName (js ''Kim''), ChangeContact (js ''0101234567''), CheckPracticeAndEmployment,
       ChangePracticeDate (js ''202503''), ChooseHopeTime [0xBC14, 0xB85C, 0x0020, 0xCDE8, 0xC5C5],
       ChooseSupportFund fundHoped, ChangePrivacy True, ClickSubmit]) (Settle ResponseOk)) = 3"
proof -
  define evsB where "evsB =
      [ChangeName (js ''Kim''), ChangeContact (js ''0101234567''), CheckPracticeAndEmployment,
       ChangePracticeDate (js ''202503''), ChooseHopeTime [0xBC14, 0xB85C, 0x0020, 0xCDE8, 0xC5C5],
       ChooseSupportFund fundHoped, ChangePrivacy True, ClickSubmit]"
  define p where "p = state1.step (run1 Map.empty [])"
  define p' where "p' = state1.step (handleEvent1 Map.empty (run1 Map.empty []) ClickNext)"
  define q where "q = state2.step (run2 Map.empty evsB)"
  define q' where "q' = state2.step (handleEvent2 Map.empty (run2 Map.empty evsB) (Settle ResponseOk))"
  have a: "p = 1" "p' = 2"
    by (simp_all add: p_def p'_def run1_def initialState1_def)
  have b: "q = 2" "state2.loading (run2 Map.empty evsB)"
    unfolding q_def evsB_def by (rule example_run2_state(1), rule example_run2_state(2))
  have c: "q' = 3"
    unfolding q'_def using b(2) by (simp add: settle2_ok)
  have "p' \<noteq> p \<longrightarrow> p = 1 \<and> ClickNext = ClickNext \<and> p' = 2
          \<or> p = 2 \<and> ClickNext = Settle ResponseOk \<and> p' = 3"
    unfolding p_def p'_def
    using step_only_advances [where inherited = Map.empty and evsA = "[]" and ev = ClickNext
      and evsB = "[]" and rest = "[]"]
    by blast
  moreover have "q' \<noteq> q \<longrightarrow> q = 2 \<and> Settle ResponseOk = Settle ResponseOk \<and> q' = 3"
    unfolding q_def q'_def
    using step_only_advances [where inherited = Map.empty and evsA = "[]"
      and ev = "Settle ResponseOk" and evsB = evsB and rest = "[]"]
    by blast
  ultimately have "p = 1 \<and> p' = 2 \<and> q = 2 \<and> q' = 3"
    using a b(1) c by blast
  then show ?thesis
    unfolding p_def p'_def q_def q'_def evsB_def .
qed

theorem submitData2_business_rules_witness:
  "payload2.type (submitData2 (run2 Map.empty
      [ChangeName (js ''Kim''), ChangeContact (js ''0101234567''), CheckPracticeAndEmployment,
       ChangePracticeDate (js ''202503''), ChooseHopeTime [0xBC14, 0xB85C, 0x0020, 0xCDE8, 0xC5C5],
       ChooseSupportFund fundHoped, ChangePrivacy True, ClickSubmit])) = typePracticeAndEmployment
   \<and> payload2.practice_planned_date (submitData2 (run2 Map.empty
      [ChangeName (js ''Kim''), ChangeContact (js ''0101234567''), CheckPracticeAndEmployment,
       ChangePracticeDate (js ''202503''), ChooseHopeTime [0xBC14, 0xB85C, 0x0020, 0xCDE8, 0xC5C5],
       ChooseSupportFund fundHoped, ChangePrivacy True, ClickSubmit])) = Some (js ''202503'')
   \<and> payload2.employment_support_fund (submitData2 (run2 Map.empty
      [ChangeName (js ''Kim''), ChangeContact (js ''0101234567''), CheckPracticeAndEmployment,
       ChangePracticeDate (js ''202503''), ChooseHopeTime [0xBC14, 0xB85C, 0x0020, 0xCDE8, 0xC5C5],
       ChooseSupportFund fundHoped, ChangePrivacy True, ClickSubmit]))
   \<and> (\<exists>d. payload2.practice_planned_date (hd (state2.posted (run2 Map.empty
      [ChangeName (js ''Kim''), ChangeContact (js ''0101234567''), CheckPracticeAndEmployment,
       ChangePracticeDate (js ''202503''), ChooseHopeTime [0xBC14, 0xB85C, 0x0020, 0xCDE8, 0xC5C5],
       ChooseSupportFund fundHoped, ChangePrivacy True, ClickSubmit]))) = Some d \<and> length d = 6)"
proof -
  define evs where "evs =
      [ChangeName (js ''Kim''), ChangeContact (js ''0101234567''), CheckPracticeAndEmployment,
       ChangePracticeDate (js ''202503''), ChooseHopeTime [0xBC14, 0xB85C, 0x0020, 0xCDE8, 0xC5C5],
       ChooseSupportFund fundHoped, ChangePrivacy True, ClickSubmit]"
  define st where "st = run2 Map.empty evs"
  define fd where "fd = state2.formData st"
  have f: "fd = \<lparr>formData2.name = js ''Kim'', contact = js ''010-1234-567'', service_practice = True,
      service_employment = True, practice_planned_date = js ''2025-03'',
      employment_hope_time = [0xBC14, 0xB85C, 0x0020, 0xCDE8, 0xC5C5],
      employment_support_fund = fundHoped\<rparr>"
    unfolding fd_def st_def evs_def by (rule example_run2_state(3))
  have p: "state2.posted st
   = [\<lparr>payload2.name = js ''Kim'', contact = js ''010-1234-567'', service_practice = True,
       service_employment = True, practice_planned_date = Some (js ''202503''),
       employment_hope_time = [0xBC14, 0xB85C, 0x0020, 0xCDE8, 0xC5C5],
       employment_support_fund = True, privacy_agreed = True, click_source = homepageName2,
       type = typePracticeAndEmployment\<rparr>]"
    unfolding st_def evs_def by (rule example_run2_state(4))
  have d: "filter (\<lambda>c. c \<noteq> dash) (js ''2025-03'') = js ''202503''"
    by (simp add: js_def dash_def)
  note t = submitData2_business_rules [OF st_def fd_def]
  have q: "hd (state2.posted st) \<in> set (state2.posted st)"
    "payload2.service_practice (hd (state2.posted st))"
    by (simp_all add: p)
  from t have "\<forall>q \<in> set (state2.posted st). payload2.service_practice q \<longrightarrow>
          (\<exists>d. payload2.practice_planned_date q = Some d \<and> length d = 6
                \<and> (\<forall>c \<in> set d. isDigit c))"
    by blast
  with q have "\<exists>d. payload2.practice_planned_date (hd (state2.posted st)) = Some d \<and> length d = 6"
    by blast
  moreover from t f d have "payload2.type (submitData2 st) = typePracticeAndEmployment"
    "payload2.practice_planned_date (submitData2 st) = Some (js ''202503'')"
    "payload2.employment_support_fund (submitData2 st)"
    by simp_all
  ultimately show ?thesis
    unfolding st_def evs_def by simp
qed

theorem practice_date_only_with_practice_witness:
  "practice_planned_date (state2.formData
      (run2 Map.empty [CheckPractice, ChangePracticeDate (js ''202503'')])) = js ''2025-03''
   \<and> practice_planned_date (state2.formData (handleEvent2 Map.empty
      (run2 Map.empty [CheckPractice, ChangePracticeDate (js ''202503'')]) CheckEmployment)) = []
   \<and> payload2.practice_planned_date (submitData2 (handleEvent2 Map.empty
      (run2 Map.empty [CheckPractice, ChangePracticeDate (js ''202503'')]) CheckEmployment)) = None
   \<and> payload2.service_practice (hd (state2.posted (run2 Map.empty
      [ChangeName (js ''Kim''), ChangeContact (js ''0101234567''), CheckPracticeAndEmployment,
       ChangePracticeDate (js ''202503''), ChooseHopeTime [0xBC14, 0xB85C, 0x0020, 0xCDE8, 0xC5C5],
       ChooseSupportFund fundHoped, ChangePrivacy True, ClickSubmit])))"
proof -
  define evs where "evs =
      [ChangeName (js ''Kim''), ChangeContact (js ''0101234567''), CheckPracticeAndEmployment,
       ChangePracticeDate (js ''202503''), ChooseHopeTime [0xBC14, 0xB85C, 0x0020, 0xCDE8, 0xC5C5],
       ChooseSupportFund fundHoped, ChangePrivacy True, ClickSubmit]"
  define st where "st = run2 Map.empty [CheckPractice, ChangePracticeDate (js ''202503'')]"
  define st' where "st' = handleEvent2 Map.empty st CheckEmployment"
  have a: "state2.step st = 2" "practice_planned_date (state2.formData st) = js ''2025-03''"
    by (simp_all add: st_def run2_def initialState2_def formatPracticeDate_groups js_def
        isDigit_def dash_def Let_def)
  have p: "state2.posted (run2 Map.empty evs)
   = [\<lparr>payload2.name = js ''Kim'', contact = js ''010-1234-567'', service_practice = True,
       service_employment = True, practice_planned_date = Some (js ''202503''),
       employment_hope_time = [0xBC14, 0xB85C, 0x0020, 0xCDE8, 0xC5C5],
       employment_support_fund = True, privacy_agreed = True, click_source = homepageName2,
       type = typePracticeAndEmployment\<rparr>]"
    unfolding evs_def by (rule example_run2_state(4))
  have q: "hd (state2.posted (run2 Map.empty evs)) \<in> set (state2.posted (run2 Map.empty evs))"
    "payload2.practice_planned_date (hd (state2.posted (run2 Map.empty evs))) \<noteq> None"
    by (simp_all add: p)
  note t = practice_date_only_with_practice [where st = st and inherited = Map.empty and evs = evs]
  note t' = practice_date_only_with_practice [where st = st' and inherited = Map.empty and evs = evs]
  from t a have c: "practice_planned_date (state2.formData st') = []"
    "\<not> service_practice (state2.formData st')"
    unfolding st'_def by blast+
  from t' c have "payload2.practice_planned_date (submitData2 st') = None"
    by blast
  moreover from t q have "payload2.service_practice (hd (state2.posted (run2 Map.empty evs)))"
    by blast
  ultimately show ?thesis
    using a c unfolding st'_def st_def evs_def by simp
qed

end
